theory Spec2Isabelle
  imports Main "HOL-Library.Word"
begin

unbundle bit_operations_syntax

section \<open>Base EtherCAT datagram layer (ethercatbase.c)\<close>

text \<open>
  The two source files are the same program up to the prefix of the names
  (\<open>Nexx__\<close> / \<open>nexx_\<close>); the model keeps the names of
  \<^verbatim>\<open>Nex_EC_Master/soem/ethercatbase.c\<close>.

  A buffer (\<^verbatim>\<open>uint8 *\<close>, \<^verbatim>\<open>void *\<close>) is modelled as the bytes found at each
  offset from its base pointer. C checks no bounds, so neither does the model:
  the offset is an \<open>int\<close>, and staying inside the 1518-byte frame buffer is the
  caller's obligation, as in the source.
\<close>

type_synonym uint8 = "8 word"
type_synonym uint16 = "16 word"
type_synonym uint32 = "32 word"
type_synonym int64 = "64 word"
type_synonym cint = "32 word"
type_synonym bytes = "int \<Rightarrow> uint8"

subsection \<open>Constants of ethercattype.h\<close>

text \<open>
  Modelled from the spec: \<^verbatim>\<open>ethercattype.h\<close> is not among the sources, so the
  constants, the layout of \<^verbatim>\<open>Nex_comt\<close> and the command codes are taken from the
  wire format the spec gives. The Ethernet header is 14 bytes. \<^verbatim>\<open>Nex_comt\<close>, the
  struct the builder lays over the frame at offset 14, is the 2-byte EtherCAT
  length word \<open>elength\<close> (bytes 14..15) followed by the 10-byte datagram
  sub-header (bytes 16..25: command 1, index 1, ADP 2, ADO 2, dlength 2, irq 2),
  12 bytes in all. \<^verbatim>\<open>Nex_HEADERSIZE\<close> is the size of this struct: the builder
  writes the payload at \<^verbatim>\<open>frameP[ETH_HEADERSIZE + Nex_HEADERSIZE]\<close>, which the spec
  puts at offset 26, behind the IRQ bytes, and a 1486-byte payload makes a
  1514-byte frame. The type nibble is 1 in bits 12..15, "more follows" is bit 15
  of dlength, the working counter is 2 bytes, the command byte of a received
  frame (which has no Ethernet header) is at offset 2, and the DC system time
  register is 0x0910.
\<close>

definition ETH_HEADERSIZE :: int where "ETH_HEADERSIZE = 14"
definition Nex_HEADERSIZE :: int where "Nex_HEADERSIZE = 12"
definition Nex_ELENGTHSIZE :: int where "Nex_ELENGTHSIZE = 2"
definition Nex_CMDOFFSET :: int where "Nex_CMDOFFSET = Nex_ELENGTHSIZE"
definition Nex_WKCSIZE :: int where "Nex_WKCSIZE = 2"
definition Nex_ECATTYPE :: uint16 where "Nex_ECATTYPE = 0x1000"
definition Nex_DATAGRAMFOLLOWS :: uint16 where "Nex_DATAGRAMFOLLOWS = push_bit 15 1"
definition ECT_REG_DCSYSTIME :: uint16 where "ECT_REG_DCSYSTIME = 0x0910"

text \<open>Offsets of the fields of \<^verbatim>\<open>Nex_comt\<close> from the start of the struct.\<close>

definition off_elength :: int where "off_elength = 0"
definition off_command :: int where "off_command = 2"
definition off_index :: int where "off_index = 3"
definition off_ADP :: int where "off_ADP = 4"
definition off_ADO :: int where "off_ADO = 6"
definition off_dlength :: int where "off_dlength = 8"

definition Nex_CMD_NOP :: uint8 where "Nex_CMD_NOP = 0"
definition Nex_CMD_APRD :: uint8 where "Nex_CMD_APRD = 1"
definition Nex_CMD_APWR :: uint8 where "Nex_CMD_APWR = 2"
definition Nex_CMD_FPRD :: uint8 where "Nex_CMD_FPRD = 4"
definition Nex_CMD_FPWR :: uint8 where "Nex_CMD_FPWR = 5"
definition Nex_CMD_BRD :: uint8 where "Nex_CMD_BRD = 7"
definition Nex_CMD_BWR :: uint8 where "Nex_CMD_BWR = 8"
definition Nex_CMD_LRD :: uint8 where "Nex_CMD_LRD = 10"
definition Nex_CMD_LWR :: uint8 where "Nex_CMD_LWR = 11"
definition Nex_CMD_LRW :: uint8 where "Nex_CMD_LRW = 12"
definition Nex_CMD_ARMW :: uint8 where "Nex_CMD_ARMW = 13"
definition Nex_CMD_FRMW :: uint8 where "Nex_CMD_FRMW = 14"

definition LO_WORD :: "uint32 \<Rightarrow> uint16" where "LO_WORD l = ucast l"
definition HI_WORD :: "uint32 \<Rightarrow> uint16" where "HI_WORD l = ucast (drop_bit 16 l)"

subsection \<open>Bytes, little-endian fields, memset and memcpy\<close>

text \<open>
  \<open>put16 m a v\<close> is the store \<^verbatim>\<open>field = htoes(v)\<close> of a 16-bit field at offset
  \<open>a\<close>: the low byte first, on every host. \<open>get16 m a\<close> is \<^verbatim>\<open>etohs(field)\<close>.
\<close>

definition put16 :: "bytes \<Rightarrow> int \<Rightarrow> uint16 \<Rightarrow> bytes" where
  "put16 m a v = (m(a := ucast v))(a + 1 := ucast (drop_bit 8 v))"

definition get16 :: "bytes \<Rightarrow> int \<Rightarrow> uint16" where
  "get16 m a = ucast (m a) OR push_bit 8 (ucast (m (a + 1)))"

fun le_decode :: "uint8 list \<Rightarrow> int64" where
  "le_decode [] = 0"
| "le_decode (b # bs) = ucast b OR push_bit 8 (le_decode bs)"

definition get64 :: "bytes \<Rightarrow> int \<Rightarrow> int64" where
  "get64 m a = le_decode (map (\<lambda>i. m (a + int i)) [0..<8])"

text \<open>The eight bytes of a 64-bit variable that holds \<^verbatim>\<open>htoell(v)\<close>.\<close>

definition bytes_of_le64 :: "int64 \<Rightarrow> bytes" where
  "bytes_of_le64 v = (\<lambda>i. if 0 \<le> i \<and> i < 8 then ucast (drop_bit (8 * nat i) v) else 0)"

definition memset0 :: "bytes \<Rightarrow> int \<Rightarrow> int \<Rightarrow> bytes" where
  "memset0 m a n = (\<lambda>i. if a \<le> i \<and> i < a + n then 0 else m i)"

definition memcpy :: "bytes \<Rightarrow> int \<Rightarrow> bytes \<Rightarrow> int \<Rightarrow> int \<Rightarrow> bytes" where
  "memcpy dst a src b n = (\<lambda>i. if a \<le> i \<and> i < a + n then src (b + (i - a)) else dst i)"

definition bytes_of_list :: "uint8 list \<Rightarrow> bytes" where
  "bytes_of_list xs = (\<lambda>i. if 0 \<le> i \<and> i < int (length xs) then xs ! nat i else 0)"

subsection \<open>The port context\<close>

text \<open>
  The slots of \<^verbatim>\<open>Nexx__portt\<close> this file touches, each indexed by the 8-bit
  transaction index.
\<close>

datatype Nex_bufstate =
  Nex_BUF_EMPTY | Nex_BUF_ALLOC | Nex_BUF_TX | Nex_BUF_RCVD | Nex_BUF_COMPLETE

record Nexx__portt =
  txbuf :: "uint8 \<Rightarrow> bytes"
  rxbuf :: "uint8 \<Rightarrow> bytes"
  txbuflength :: "uint8 \<Rightarrow> int"
  bufstat :: "uint8 \<Rightarrow> Nex_bufstate"

subsection \<open>Frame builder\<close>

definition is_read_cmd :: "uint8 \<Rightarrow> bool" where
  "is_read_cmd com \<longleftrightarrow>
     com = Nex_CMD_NOP \<or> com = Nex_CMD_APRD \<or> com = Nex_CMD_FPRD \<or>
     com = Nex_CMD_BRD \<or> com = Nex_CMD_LRD"

text \<open>
  \<^verbatim>\<open>Nexx__writedatagramdata(datagramdata, com, length, data)\<close>, with
  \<open>datagramdata\<close> the offset \<open>a\<close> into the frame \<open>m\<close>.
\<close>

definition Nexx__writedatagramdata :: "bytes \<Rightarrow> int \<Rightarrow> uint8 \<Rightarrow> uint16 \<Rightarrow> bytes \<Rightarrow> bytes" where
  "Nexx__writedatagramdata m a com len data =
     (if 0 < len then
        (if is_read_cmd com then memset0 m a (uint len)
         else memcpy m a data 0 (uint len))
      else m)"

text \<open>
  \<^verbatim>\<open>Nexx__setupdatagram\<close>. The frame is a parameter of its own, as in the source
  (the primitives pass \<^verbatim>\<open>&port->txbuf[idx]\<close>); the result is the port with the
  new \<open>txbuflength\<close> and the frame. The C function returns 0 always.
\<close>

definition Nexx__setupdatagram ::
  "Nexx__portt \<Rightarrow> bytes \<Rightarrow> uint8 \<Rightarrow> uint8 \<Rightarrow> uint16 \<Rightarrow> uint16 \<Rightarrow> uint16 \<Rightarrow> bytes
     \<Rightarrow> Nexx__portt \<times> bytes" where
  "Nexx__setupdatagram port frame com idx ADP ADO len data =
     (let d = ETH_HEADERSIZE;
          f1 = put16 frame (d + off_elength) (Nex_ECATTYPE + word_of_int Nex_HEADERSIZE + len);
          f2 = f1(d + off_command := com);
          f3 = f2(d + off_index := idx);
          f4 = put16 f3 (d + off_ADP) ADP;
          f5 = put16 f4 (d + off_ADO) ADO;
          f6 = put16 f5 (d + off_dlength) len;
          f7 = Nexx__writedatagramdata f6 (ETH_HEADERSIZE + Nex_HEADERSIZE) com len data;
          f8 = f7(ETH_HEADERSIZE + Nex_HEADERSIZE + uint len := 0);
          f9 = f8(ETH_HEADERSIZE + Nex_HEADERSIZE + uint len + 1 := 0)
      in (port\<lparr>txbuflength := (txbuflength port)
                 (idx := ETH_HEADERSIZE + Nex_HEADERSIZE + Nex_WKCSIZE + uint len)\<rparr>,
          f9))"

text \<open>
  \<^verbatim>\<open>Nexx__adddatagram\<close>. \<open>prevlength\<close> is a \<^verbatim>\<open>uint16\<close> copy of the slot's
  length; the result is the port, the frame and the returned offset. The
  parameter \<^verbatim>\<open>more\<close> is \<open>more_flag\<close> here.
\<close>

definition Nexx__adddatagram ::
  "Nexx__portt \<Rightarrow> bytes \<Rightarrow> uint8 \<Rightarrow> uint8 \<Rightarrow> bool \<Rightarrow> uint16 \<Rightarrow> uint16 \<Rightarrow> uint16 \<Rightarrow> bytes
     \<Rightarrow> Nexx__portt \<times> bytes \<times> int" where
  "Nexx__adddatagram port frame com idx more_flag ADP ADO len data =
     (let prevlength = uint (word_of_int (txbuflength port idx) :: uint16);
          d0 = ETH_HEADERSIZE;
          f1 = put16 frame (d0 + off_elength)
                 (get16 frame (d0 + off_elength) + word_of_int Nex_HEADERSIZE + len);
          f2 = put16 f1 (d0 + off_dlength)
                 (get16 f1 (d0 + off_dlength) OR Nex_DATAGRAMFOLLOWS);
          d = prevlength - Nex_ELENGTHSIZE;
          f3 = f2(d + off_command := com);
          f4 = f3(d + off_index := idx);
          f5 = put16 f4 (d + off_ADP) ADP;
          f6 = put16 f5 (d + off_ADO) ADO;
          f7 = (if more_flag then put16 f6 (d + off_dlength) (len OR Nex_DATAGRAMFOLLOWS)
                else put16 f6 (d + off_dlength) len);
          p = prevlength + Nex_HEADERSIZE - Nex_ELENGTHSIZE;
          f8 = Nexx__writedatagramdata f7 p com len data;
          f9 = f8(p + uint len := 0);
          f10 = f9(p + uint len + 1 := 0)
      in (port\<lparr>txbuflength := (txbuflength port)
                 (idx := prevlength + Nex_HEADERSIZE - Nex_ELENGTHSIZE + Nex_WKCSIZE + uint len)\<rparr>,
          f10,
          prevlength + Nex_HEADERSIZE - Nex_ELENGTHSIZE - ETH_HEADERSIZE))"

subsection \<open>What the primitives take from outside this file\<close>

text \<open>
  \<^verbatim>\<open>Nexx__getindex\<close>, \<^verbatim>\<open>Nexx__srconfirm\<close> and \<^verbatim>\<open>Nexx__setbufstat\<close> belong to
  the NIC driver and are not part of this file: the primitives take them as
  parameters, each a function of the port that returns the port it leaves
  behind. Two properties of the target the code is compiled for are parameters
  as well: \<open>sizeof_ptr\<close> is \<^verbatim>\<open>sizeof(int64 *)\<close> (8 with 64-bit pointers, 4 with
  32-bit pointers), and \<open>host_big_endian\<close> tells whether the host stores the
  most significant byte of an integer first.
\<close>

record Nex_env =
  Nexx__getindex :: "Nexx__portt \<Rightarrow> uint8 \<times> Nexx__portt"
  Nexx__srconfirm :: "Nexx__portt \<Rightarrow> uint8 \<Rightarrow> cint \<Rightarrow> cint \<times> Nexx__portt"
  Nexx__setbufstat :: "Nexx__portt \<Rightarrow> uint8 \<Rightarrow> Nex_bufstate \<Rightarrow> Nexx__portt"
  sizeof_ptr :: uint16
  host_big_endian :: bool

text \<open>
  The value of a \<^verbatim>\<open>uint16\<close> variable whose two bytes lie at offset \<open>a\<close>, read
  in the byte order of the host.
\<close>

definition host_u16 :: "bool \<Rightarrow> bytes \<Rightarrow> int \<Rightarrow> uint16" where
  "host_u16 be m a =
     (if be then ucast (m (a + 1)) OR push_bit 8 (ucast (m a)) else get16 m a)"

subsection \<open>Datagram primitives\<close>

text \<open>
  Each primitive returns the C return value, the caller's buffers as the call
  leaves them, and the port. \<^verbatim>\<open>int\<close> is 32 bits wide and \<open>wkc > 0\<close> is a
  signed comparison.

  Every primitive starts with the same two statements,
  \<^verbatim>\<open>idx = Nexx__getindex(port); Nexx__setupdatagram(port, &(port->txbuf[idx]), com, idx, ADP, ADO, length, data);\<close>
  The frame handed to the builder is the slot \<open>txbuf[idx]\<close> of the port, so the
  built frame is stored back into that slot. \<open>setup_in_slot\<close> is these two
  statements; it yields the index and the port on which \<^verbatim>\<open>Nexx__srconfirm\<close>
  is called next.
\<close>

definition setup_in_slot ::
  "uint8 \<Rightarrow> Nex_env \<Rightarrow> Nexx__portt \<Rightarrow> uint16 \<Rightarrow> uint16 \<Rightarrow> uint16 \<Rightarrow> bytes
     \<Rightarrow> uint8 \<times> Nexx__portt" where
  "setup_in_slot com env port ADP ADO len data =
     (let (idx, p1) = Nexx__getindex env port;
          (p2, fr) = Nexx__setupdatagram p1 (txbuf p1 idx) com idx ADP ADO len data
      in (idx, p2\<lparr>txbuf := (txbuf p2)(idx := fr)\<rparr>))"

definition Nexx__APRD ::
  "Nex_env \<Rightarrow> Nexx__portt \<Rightarrow> uint16 \<Rightarrow> uint16 \<Rightarrow> uint16 \<Rightarrow> bytes \<Rightarrow> cint
     \<Rightarrow> cint \<times> bytes \<times> Nexx__portt" where
  "Nexx__APRD env port ADP ADO len data timeout =
     (let (idx, p3) = setup_in_slot Nex_CMD_APRD env port ADP ADO len data;
          (wkc, p4) = Nexx__srconfirm env p3 idx timeout;
          data' = (if 0 <s wkc then memcpy data 0 (rxbuf p4 idx) Nex_HEADERSIZE (uint len)
                   else data);
          p5 = Nexx__setbufstat env p4 idx Nex_BUF_EMPTY
      in (wkc, data', p5))"

definition Nexx__FPRD ::
  "Nex_env \<Rightarrow> Nexx__portt \<Rightarrow> uint16 \<Rightarrow> uint16 \<Rightarrow> uint16 \<Rightarrow> bytes \<Rightarrow> cint
     \<Rightarrow> cint \<times> bytes \<times> Nexx__portt" where
  "Nexx__FPRD env port ADP ADO len data timeout =
     (let (idx, p3) = setup_in_slot Nex_CMD_FPRD env port ADP ADO len data;
          (wkc, p4) = Nexx__srconfirm env p3 idx timeout;
          data' = (if 0 <s wkc then memcpy data 0 (rxbuf p4 idx) Nex_HEADERSIZE (uint len)
                   else data);
          p5 = Nexx__setbufstat env p4 idx Nex_BUF_EMPTY
      in (wkc, data', p5))"

text \<open>
  The word-return variants: the local \<^verbatim>\<open>uint16 w\<close> is two bytes of memory set
  to zero, handed to the byte variant with \<^verbatim>\<open>sizeof(w)\<close> = 2, and read back as
  a 16-bit value in the byte order of the host.
\<close>

definition Nexx__APRDw ::
  "Nex_env \<Rightarrow> Nexx__portt \<Rightarrow> uint16 \<Rightarrow> uint16 \<Rightarrow> cint \<Rightarrow> uint16 \<times> Nexx__portt" where
  "Nexx__APRDw env port ADP ADO timeout =
     (let w = put16 (\<lambda>_. 0) 0 0;
          (wkc, w', p) = Nexx__APRD env port ADP ADO 2 w timeout
      in (host_u16 (host_big_endian env) w' 0, p))"

definition Nexx__FPRDw ::
  "Nex_env \<Rightarrow> Nexx__portt \<Rightarrow> uint16 \<Rightarrow> uint16 \<Rightarrow> cint \<Rightarrow> uint16 \<times> Nexx__portt" where
  "Nexx__FPRDw env port ADP ADO timeout =
     (let w = put16 (\<lambda>_. 0) 0 0;
          (wkc, w', p) = Nexx__FPRD env port ADP ADO 2 w timeout
      in (host_u16 (host_big_endian env) w' 0, p))"

text \<open>
  \<^verbatim>\<open>Nexx__LRW\<close> and \<^verbatim>\<open>Nexx__LRD\<close>: the copy back also needs the command byte of
  the received frame to be the command sent.
\<close>

definition Nexx__LRW ::
  "Nex_env \<Rightarrow> Nexx__portt \<Rightarrow> uint32 \<Rightarrow> uint16 \<Rightarrow> bytes \<Rightarrow> cint
     \<Rightarrow> cint \<times> bytes \<times> Nexx__portt" where
  "Nexx__LRW env port LogAdr len data timeout =
     (let (idx, p3) = setup_in_slot Nex_CMD_LRW env port (LO_WORD LogAdr) (HI_WORD LogAdr)
                        len data;
          (wkc, p4) = Nexx__srconfirm env p3 idx timeout;
          data' = (if 0 <s wkc \<and> rxbuf p4 idx Nex_CMDOFFSET = Nex_CMD_LRW
                   then memcpy data 0 (rxbuf p4 idx) Nex_HEADERSIZE (uint len)
                   else data);
          p5 = Nexx__setbufstat env p4 idx Nex_BUF_EMPTY
      in (wkc, data', p5))"

definition Nexx__LRD ::
  "Nex_env \<Rightarrow> Nexx__portt \<Rightarrow> uint32 \<Rightarrow> uint16 \<Rightarrow> bytes \<Rightarrow> cint
     \<Rightarrow> cint \<times> bytes \<times> Nexx__portt" where
  "Nexx__LRD env port LogAdr len data timeout =
     (let (idx, p3) = setup_in_slot Nex_CMD_LRD env port (LO_WORD LogAdr) (HI_WORD LogAdr)
                        len data;
          (wkc, p4) = Nexx__srconfirm env p3 idx timeout;
          data' = (if 0 <s wkc \<and> rxbuf p4 idx Nex_CMDOFFSET = Nex_CMD_LRD
                   then memcpy data 0 (rxbuf p4 idx) Nex_HEADERSIZE (uint len)
                   else data);
          p5 = Nexx__setbufstat env p4 idx Nex_BUF_EMPTY
      in (wkc, data', p5))"

text \<open>
  \<^verbatim>\<open>Nexx__LRWDC\<close>, in two parts. \<open>LRWDC_build\<close> is the function up to the call
  of \<^verbatim>\<open>Nexx__srconfirm\<close>: it yields the index, \<open>DCtO\<close> (the returned offset
  stored in a \<^verbatim>\<open>uint16\<close>) and the port holding the frame to send. \<open>DCtE\<close>
  holds \<^verbatim>\<open>htoell(*DCtime)\<close>; the length passed for the second datagram is
  \<^verbatim>\<open>sizeof(DCtime)\<close>, the size of the pointer.
\<close>

definition LRWDC_build ::
  "Nex_env \<Rightarrow> Nexx__portt \<Rightarrow> uint32 \<Rightarrow> uint16 \<Rightarrow> bytes \<Rightarrow> uint16 \<Rightarrow> int64
     \<Rightarrow> uint8 \<times> uint16 \<times> Nexx__portt" where
  "LRWDC_build env port LogAdr len data DCrs DCtime =
     (let (idx, p3) = setup_in_slot Nex_CMD_LRW env port (LO_WORD LogAdr) (HI_WORD LogAdr)
                        len data;
          DCtE = bytes_of_le64 DCtime;
          (p4, fr2, off) = Nexx__adddatagram p3 (txbuf p3 idx) Nex_CMD_FRMW idx False
                             DCrs ECT_REG_DCSYSTIME (sizeof_ptr env) DCtE;
          p5 = p4\<lparr>txbuf := (txbuf p4)(idx := fr2)\<rparr>
      in (idx, word_of_int off, p5))"

text \<open>
  \<^verbatim>\<open>memcpy(&wkc, src, Nex_WKCSIZE)\<close> replaces the two bytes of the \<^verbatim>\<open>int\<close> that
  lie first in memory by the bytes at offset \<open>a\<close> of \<open>m\<close>. On a little-endian
  host these are its low half, the first byte the lowest; on a big-endian host
  they are its high half, the first byte the highest, and the low half stays.
  The eight bytes copied into \<open>DCtE\<close> and passed through \<^verbatim>\<open>etohll\<close> are
  \<open>get64\<close> on either host.
\<close>

definition memcpy_wkc :: "bool \<Rightarrow> cint \<Rightarrow> bytes \<Rightarrow> int \<Rightarrow> cint" where
  "memcpy_wkc be wkc m a =
     (if be
      then (wkc AND 0xFFFF) OR push_bit 24 (ucast (m a)) OR push_bit 16 (ucast (m (a + 1)))
      else (wkc AND NOT 0xFFFF) OR ucast (m a) OR push_bit 8 (ucast (m (a + 1))))"

definition Nexx__LRWDC ::
  "Nex_env \<Rightarrow> Nexx__portt \<Rightarrow> uint32 \<Rightarrow> uint16 \<Rightarrow> bytes \<Rightarrow> uint16 \<Rightarrow> int64 \<Rightarrow> cint
     \<Rightarrow> cint \<times> bytes \<times> int64 \<times> Nexx__portt" where
  "Nexx__LRWDC env port LogAdr len data DCrs DCtime timeout =
     (let (idx, DCtO, p5) = LRWDC_build env port LogAdr len data DCrs DCtime;
          (wkc, p6) = Nexx__srconfirm env p5 idx timeout;
          (data', wkc', DCtime') =
             (if 0 <s wkc \<and> rxbuf p6 idx Nex_CMDOFFSET = Nex_CMD_LRW
              then (memcpy data 0 (rxbuf p6 idx) Nex_HEADERSIZE (uint len),
                    memcpy_wkc (host_big_endian env) wkc (rxbuf p6 idx)
                      (Nex_HEADERSIZE + uint len),
                    get64 (rxbuf p6 idx) (uint DCtO))
              else (data, wkc, DCtime));
          p7 = Nexx__setbufstat env p6 idx Nex_BUF_EMPTY
      in (wkc', data', DCtime', p7))"

subsection \<open>Frames of several datagrams\<close>

text \<open>
  The arguments of one builder call, and the call sequence "one
  \<^verbatim>\<open>setupdatagram\<close>, then one \<^verbatim>\<open>adddatagram\<close> for each further datagram" on
  the same frame and index. \<open>dg_more\<close> is the \<^verbatim>\<open>more\<close> argument; the first
  datagram has none.
\<close>

record datagram =
  dg_com :: uint8
  dg_more :: bool
  dg_ADP :: uint16
  dg_ADO :: uint16
  dg_len :: uint16
  dg_data :: bytes

definition add_step :: "uint8 \<Rightarrow> Nexx__portt \<times> bytes \<Rightarrow> datagram \<Rightarrow> Nexx__portt \<times> bytes" where
  "add_step idx pf d =
     (let (p', f', off) =
        Nexx__adddatagram (fst pf) (snd pf) (dg_com d) idx (dg_more d)
          (dg_ADP d) (dg_ADO d) (dg_len d) (dg_data d)
      in (p', f'))"

definition build_frame ::
  "Nexx__portt \<Rightarrow> bytes \<Rightarrow> uint8 \<Rightarrow> datagram \<Rightarrow> datagram list \<Rightarrow> Nexx__portt \<times> bytes" where
  "build_frame port frame idx d0 ds =
     foldl (add_step idx)
       (Nexx__setupdatagram port frame (dg_com d0) idx (dg_ADP d0) (dg_ADO d0)
          (dg_len d0) (dg_data d0))
       ds"

text \<open>The sum of the payload lengths of a list of datagrams.\<close>

definition sum_len :: "datagram list \<Rightarrow> int" where
  "sum_len ds = sum_list (map (\<lambda>d. uint (dg_len d)) ds)"

text \<open>
  Where the dlength field of the \<open>j\<close>-th datagram of a frame lies in the
  transmit buffer: 14 bytes of Ethernet header, 2 of EtherCAT header, then for
  each earlier datagram 10 bytes of sub-header, its payload and 2 bytes of
  working counter, then 6 bytes into the sub-header.
\<close>

definition dlength_offset :: "datagram list \<Rightarrow> nat \<Rightarrow> int" where
  "dlength_offset ds j = 22 + 12 * int j + sum_len (take j ds)"

text \<open>
  What the builder leaves in bit 15 of the dlength field of the \<open>j\<close>-th
  datagram: for the first datagram, whether any datagram was added after it; for
  an added datagram, the \<^verbatim>\<open>more\<close> argument of its own call.
\<close>

definition follows_expected :: "datagram list \<Rightarrow> nat \<Rightarrow> bool" where
  "follows_expected ds j = (if j = 0 then 1 < length ds else dg_more (ds ! j))"

subsection \<open>Example values\<close>

definition ex_port :: Nexx__portt where
  "ex_port = \<lparr>txbuf = \<lambda>_ _. 0, rxbuf = \<lambda>_ _. 0, txbuflength = \<lambda>_. 0,
              bufstat = \<lambda>_. Nex_BUF_EMPTY\<rparr>"

text \<open>
  A transport for the examples: it hands out index 0, answers every frame with
  the working counter \<open>w\<close> and the received frame \<open>rx\<close>, and records the
  buffer state. \<open>n\<close> is the size of a pointer; the host is little-endian.
\<close>

definition ex_env :: "cint \<Rightarrow> bytes \<Rightarrow> uint16 \<Rightarrow> Nex_env" where
  "ex_env w rx n =
     \<lparr>Nexx__getindex = (\<lambda>p. (0, p\<lparr>bufstat := (bufstat p)(0 := Nex_BUF_ALLOC)\<rparr>)),
      Nexx__srconfirm = (\<lambda>p idx t. (w, p\<lparr>rxbuf := (rxbuf p)(idx := rx)\<rparr>)),
      Nexx__setbufstat = (\<lambda>p idx st. p\<lparr>bufstat := (bufstat p)(idx := st)\<rparr>),
      sizeof_ptr = n,
      host_big_endian = False\<rparr>"

text \<open>
  A received LRWDC frame (no Ethernet header) for \<open>LogAdr = 0x10000\<close>, no
  process data, reference clock slave 0x1000: EtherCAT header 0x1020; LRW
  sub-header with dlength 0x8000 and IRQ 0; working counter 3; FRMW sub-header
  for register 0x0910 with dlength 8; DC time bytes 01..08; working counter 1.
\<close>

definition ex_rx_lrwdc :: bytes where
  "ex_rx_lrwdc = bytes_of_list
     [0x20, 0x10,
      12, 0, 0x00, 0x00, 0x01, 0x00, 0x00, 0x80, 0, 0,
      3, 0,
      14, 0, 0x00, 0x10, 0x10, 0x09, 8, 0, 0, 0,
      1, 2, 3, 4, 5, 6, 7, 8,
      1, 0]"

text \<open>
  The two datagrams of an LRWDC frame with 8 bytes of process data at logical
  address 0x10000 and reference clock slave 0x1000.
\<close>

definition ex_lrw :: datagram where
  "ex_lrw = \<lparr>dg_com = Nex_CMD_LRW, dg_more = False, dg_ADP = 0, dg_ADO = 1, dg_len = 8,
             dg_data = bytes_of_list [1, 2, 3, 4, 5, 6, 7, 8]\<rparr>"

definition ex_frmw :: datagram where
  "ex_frmw = \<lparr>dg_com = Nex_CMD_FRMW, dg_more = False, dg_ADP = 0x1000,
              dg_ADO = ECT_REG_DCSYSTIME, dg_len = 8, dg_data = bytes_of_le64 0\<rparr>"

text \<open>The same frame with the command byte of a command never sent here (BRD).\<close>

definition ex_rx_other :: bytes where
  "ex_rx_other = ex_rx_lrwdc(2 := Nex_CMD_BRD)"

section \<open>Properties of the byte accessors\<close>

lemma get16_put16: "get16 (put16 m a v) a = v"
  unfolding get16_def put16_def
  apply simp
  apply (rule bit_word_eqI)
  apply (auto simp add: bit_simps)
  done

lemma put16_other: "b \<noteq> a \<Longrightarrow> b \<noteq> a + 1 \<Longrightarrow> put16 m a v b = m b"
  by (simp add: put16_def)

lemma get16_cong: "m' b = m b \<Longrightarrow> m' (b + 1) = m (b + 1) \<Longrightarrow> get16 m' b = get16 m b"
  by (simp add: get16_def)

lemma type_or_add:
  fixes x :: uint16
  assumes "x < 0x1000"
  shows "0x1000 + x = 0x1000 OR x"
proof -
  have "x < 2 ^ 12" using assms by simp
  then have "x AND mask 12 = x" by (rule less_mask_eq)
  then have "bit x 12 = bit (x AND mask 12) 12" by simp
  then have nb: "\<not> bit x 12" by (simp only: bit_and_iff bit_mask_iff) simp
  have e: "(0x1000 :: uint16) = 2 ^ 12" by simp
  have "0x1000 AND x = 0"
  proof (rule bit_word_eqI)
    fix n assume "n < LENGTH(16)"
    have "bit (0x1000 :: uint16) n \<Longrightarrow> n = 12"
      unfolding e by (simp only: bit_exp_iff)
    with nb show "bit (0x1000 AND x) n \<longleftrightarrow> bit (0 :: uint16) n"
      by (auto simp: bit_and_iff)
  qed
  then show ?thesis by (rule disjunctive_add_eq_or)
qed

lemma writedatagramdata_outside:
  "b < a \<or> a + uint len \<le> b \<Longrightarrow> Nexx__writedatagramdata m a com len data b = m b"
  by (auto simp: Nexx__writedatagramdata_def memset0_def memcpy_def)

lemma writedatagramdata_inside:
  "a \<le> b \<Longrightarrow> b < a + uint len \<Longrightarrow>
   Nexx__writedatagramdata m a com len data b = (if is_read_cmd com then 0 else data (b - a))"
  apply (auto simp: Nexx__writedatagramdata_def memset0_def memcpy_def)
   apply (simp add: word_greater_zero_iff)
  apply (simp add: word_greater_zero_iff)
  done

lemmas layout = ETH_HEADERSIZE_def Nex_HEADERSIZE_def Nex_ELENGTHSIZE_def Nex_WKCSIZE_def
  off_elength_def off_command_def off_index_def off_ADP_def off_ADO_def off_dlength_def

lemma uint16_of_int: "0 \<le> n \<Longrightarrow> n < 65536 \<Longrightarrow> uint (word_of_int n :: uint16) = n"
  by (simp add: uint_word_of_int take_bit_eq_mod)

section \<open>One call of setupdatagram\<close>

lemma setup_len:
  "txbuflength (fst (Nexx__setupdatagram port frame com idx ADP ADO len data)) idx
     = 28 + uint len"
  by (simp add: Nexx__setupdatagram_def Let_def layout)

text \<open>Below offset 26 the frame holds the header fields and, elsewhere, what it held.\<close>

lemma setup_byte_low:
  assumes "b < 26"
  shows "snd (Nexx__setupdatagram port frame com idx ADP ADO len data) b =
     (put16 (put16 (put16
        ((put16 frame 14 (Nex_ECATTYPE + 12 + len))(16 := com, 17 := idx)) 18 ADP) 20 ADO)
        22 len) b"
proof -
  define n where "n = uint len"
  have n0: "0 \<le> n" by (simp add: n_def)
  show ?thesis using assms n0
    by (simp add: Nexx__setupdatagram_def Let_def layout writedatagramdata_outside
        n_def[symmetric])
qed

lemma setup_elength:
  "get16 (snd (Nexx__setupdatagram port frame com idx ADP ADO len data)) 14
     = Nex_ECATTYPE + 12 + len"
proof -
  have "get16 (snd (Nexx__setupdatagram port frame com idx ADP ADO len data)) 14
      = get16 (put16 frame 14 (Nex_ECATTYPE + 12 + len)) 14"
    by (rule get16_cong) (simp_all add: setup_byte_low put16_other)
  then show ?thesis by (simp add: get16_put16)
qed

lemma setup_payload:
  "0 \<le> i \<Longrightarrow> i < uint len \<Longrightarrow>
   snd (Nexx__setupdatagram port frame com idx ADP ADO len data) (26 + i)
     = (if is_read_cmd com then 0 else data i)"
  by (simp add: Nexx__setupdatagram_def Let_def layout writedatagramdata_inside)

lemma len_bound:
  fixes len :: uint16
  assumes "len \<le> 1486"
  shows "12 + len < 0x1000"
  using assms by uint_arith

text \<open>
  C5 (as amended). For every command, index, ADP, ADO, data and every length of
  at most 1486, after \<^verbatim>\<open>setupdatagram\<close> the slot's \<open>txbuflength\<close> is
  \<open>26 + length + 2\<close>, and bytes 14..15 of the transmit buffer decode, little
  endian, to the EtherCAT type constant OR'd with \<open>12 + length\<close>: the length
  field counts the whole 12-byte \<^verbatim>\<open>Nex_HEADERSIZE\<close>, not 10.
\<close>

theorem C5_setupdatagram_length_and_header:
  assumes "len \<le> 1486"
  shows "txbuflength (fst (Nexx__setupdatagram port frame com idx ADP ADO len data)) idx
           = 26 + uint len + 2
       \<and> get16 (snd (Nexx__setupdatagram port frame com idx ADP ADO len data)) 14
           = Nex_ECATTYPE OR (12 + len)"
proof -
  have "Nex_ECATTYPE + 12 + len = 0x1000 + (12 + len)"
    by (simp add: Nex_ECATTYPE_def)
  also have "\<dots> = 0x1000 OR (12 + len)"
    by (rule type_or_add) (rule len_bound [OF assms])
  finally show ?thesis
    by (simp add: setup_len setup_elength Nex_ECATTYPE_def)
qed

text \<open>The frame of \<^verbatim>\<open>FPWR(0x1001, 0x0120, 2, {04, 00})\<close> on index 0.\<close>

theorem C5_witness:
  "(2 :: uint16) \<le> 1486
   \<and> txbuflength (fst (Nexx__setupdatagram ex_port (\<lambda>_. 0) Nex_CMD_FPWR 0 0x1001 0x0120 2
         (bytes_of_list [4, 0]))) 0 = 30
   \<and> get16 (snd (Nexx__setupdatagram ex_port (\<lambda>_. 0) Nex_CMD_FPWR 0 0x1001 0x0120 2
         (bytes_of_list [4, 0]))) 14 = 0x100E"
  using C5_setupdatagram_length_and_header
    [of 2 ex_port "\<lambda>_. 0" Nex_CMD_FPWR 0 "0x1001" "0x0120" "bytes_of_list [4, 0]"]
  by (simp add: Nex_ECATTYPE_def)

text \<open>
  C5 as first stated, with \<open>10 + length\<close> in the length field, fails on that
  frame: the field holds 0x100E, not 0x100C.
\<close>

theorem C5_counterexample:
  "\<not> (txbuflength (fst (Nexx__setupdatagram ex_port (\<lambda>_. 0) Nex_CMD_FPWR 0 0x1001 0x0120 2
          (bytes_of_list [4, 0]))) 0 = 26 + uint (2 :: uint16) + 2
      \<and> get16 (snd (Nexx__setupdatagram ex_port (\<lambda>_. 0) Nex_CMD_FPWR 0 0x1001 0x0120 2
          (bytes_of_list [4, 0]))) 14 = Nex_ECATTYPE OR (10 + 2))"
  by (simp add: setup_elength Nex_ECATTYPE_def)

lemma no_bit15:
  fixes w :: uint16
  assumes "w < 0x8000"
  shows "\<not> bit w 15"
proof -
  have "w < 2 ^ 15" using assms by simp
  then have "w AND mask 15 = w" by (rule less_mask_eq)
  then have "bit w 15 = bit (w AND mask 15) 15" by simp
  then show ?thesis by (simp only: bit_and_iff bit_mask_iff) simp
qed

lemma follows_bit15: "bit (w OR Nex_DATAGRAMFOLLOWS) 15"
  by (simp add: bit_or_iff Nex_DATAGRAMFOLLOWS_def bit_push_bit_iff)

text \<open>
  C6 (as amended). After every \<^verbatim>\<open>setupdatagram\<close> call, bytes 16..23 of the
  transmit buffer hold the command byte, the index byte, ADP, ADO and the length,
  each 16-bit field little endian; the length field holds \<open>length\<close> itself, so
  its "more follows" bit 15 is clear for every length below 32768. The two IRQ
  bytes 24..25 are not written: they keep what the buffer held before the call.
\<close>

theorem C6_setupdatagram_subheader:
  "(let f = snd (Nexx__setupdatagram port frame com idx ADP ADO len data)
    in f 16 = com \<and> f 17 = idx \<and> get16 f 18 = ADP \<and> get16 f 20 = ADO
       \<and> get16 f 22 = len \<and> (len < 0x8000 \<longrightarrow> \<not> bit (get16 f 22) 15)
       \<and> f 24 = frame 24 \<and> f 25 = frame 25)"
proof -
  let ?f = "snd (Nexx__setupdatagram port frame com idx ADP ADO len data)"
  let ?g = "put16 (put16 (put16
        ((put16 frame 14 (Nex_ECATTYPE + 12 + len))(16 := com, 17 := idx)) 18 ADP) 20 ADO)
        22 len"
  have low: "\<And>b. b < 26 \<Longrightarrow> ?f b = ?g b" by (rule setup_byte_low)
  have 1: "?f 16 = com" by (simp add: low put16_other)
  have 2: "?f 17 = idx" by (simp add: low put16_other)
  have "get16 ?f 18 = get16 (put16 ((put16 frame 14 (Nex_ECATTYPE + 12 + len))(16 := com, 17 := idx)) 18 ADP) 18"
    by (rule get16_cong) (simp_all add: low put16_other)
  then have 3: "get16 ?f 18 = ADP" by (simp only: get16_put16)
  have "get16 ?f 20 = get16 (put16 (put16 ((put16 frame 14 (Nex_ECATTYPE + 12 + len))(16 := com, 17 := idx)) 18 ADP) 20 ADO) 20"
    by (rule get16_cong) (simp_all add: low put16_other)
  then have 4: "get16 ?f 20 = ADO" by (simp only: get16_put16)
  have "get16 ?f 22 = get16 ?g 22"
    by (rule get16_cong) (simp_all add: low)
  then have 5: "get16 ?f 22 = len" by (simp only: get16_put16)
  have 6: "?f 24 = frame 24" by (simp add: low put16_other)
  have 7: "?f 25 = frame 25" by (simp add: low put16_other)
  show ?thesis unfolding Let_def using 1 2 3 4 5 6 7 by (simp add: no_bit15)
qed

text \<open>
  The sub-header of \<^verbatim>\<open>FPWR(0x1001, 0x0120, 2, {04, 00})\<close> on index 3, in a
  buffer that held zeros.
\<close>

theorem C6_witness:
  "(let f = snd (Nexx__setupdatagram ex_port (\<lambda>_. 0) Nex_CMD_FPWR 3 0x1001 0x0120 2
                 (bytes_of_list [4, 0]))
    in map f [16, 17, 18, 19, 20, 21, 22, 23, 24, 25] = [5, 3, 0x01, 0x10, 0x20, 0x01, 2, 0, 0, 0]
       \<and> (2 :: uint16) < 0x8000 \<and> \<not> bit (get16 f 22) 15)"
  using C6_setupdatagram_subheader
    [of ex_port "\<lambda>_. 0" Nex_CMD_FPWR 3 "0x1001" "0x0120" 2 "bytes_of_list [4, 0]"]
  by (simp add: Let_def setup_byte_low put16_def Nex_CMD_FPWR_def)

text \<open>
  C6 as first stated, with both IRQ bytes zero after every call, fails for a
  buffer that held 0xFF at offset 24.
\<close>

theorem C6_counterexample:
  "snd (Nexx__setupdatagram ex_port (\<lambda>_. 0xFF) Nex_CMD_FPWR 0 0x1001 0x0120 2
          (bytes_of_list [4, 0])) 24 \<noteq> 0"
  by (simp add: setup_byte_low put16_other)

section \<open>One call of adddatagram\<close>

lemma add_ret:
  "snd (snd (Nexx__adddatagram port frame com idx mf ADP ADO len data))
     = uint (word_of_int (txbuflength port idx) :: uint16) - 4"
  by (simp add: Nexx__adddatagram_def Let_def layout)

lemma add_len:
  "txbuflength (fst (Nexx__adddatagram port frame com idx mf ADP ADO len data)) idx
     = uint (word_of_int (txbuflength port idx) :: uint16) + 12 + uint len"
  by (simp add: Nexx__adddatagram_def Let_def layout)

text \<open>
  C7. For a command among NOP, APRD, FPRD, BRD and LRD, the \<open>length\<close> payload
  bytes that \<^verbatim>\<open>setupdatagram\<close> writes (from offset 26 on) and that
  \<^verbatim>\<open>adddatagram\<close> writes (from the returned offset, taken in the transmit
  buffer, that is plus the 14 bytes of Ethernet header) are all zero whatever
  \<open>data\<close> holds; for every other command they are the first \<open>length\<close> bytes of
  \<open>data\<close>.
\<close>

theorem C7_payload_zero_or_copied:
  "\<forall>i. 0 \<le> i \<and> i < uint len \<longrightarrow>
     snd (Nexx__setupdatagram port frame com idx ADP ADO len data)
         (ETH_HEADERSIZE + Nex_HEADERSIZE + i)
       = (if com \<in> {Nex_CMD_NOP, Nex_CMD_APRD, Nex_CMD_FPRD, Nex_CMD_BRD, Nex_CMD_LRD}
          then 0 else data i)
   \<and> (let (p, f, off) = Nexx__adddatagram port frame com idx more_flag ADP ADO len data
      in f (off + ETH_HEADERSIZE + i))
       = (if com \<in> {Nex_CMD_NOP, Nex_CMD_APRD, Nex_CMD_FPRD, Nex_CMD_BRD, Nex_CMD_LRD}
          then 0 else data i)"
proof (intro allI impI conjI)
  fix i assume i: "0 \<le> i \<and> i < uint len"
  have r: "is_read_cmd com \<longleftrightarrow> com \<in> {Nex_CMD_NOP, Nex_CMD_APRD, Nex_CMD_FPRD, Nex_CMD_BRD, Nex_CMD_LRD}"
    by (simp add: is_read_cmd_def)
  show "snd (Nexx__setupdatagram port frame com idx ADP ADO len data)
         (ETH_HEADERSIZE + Nex_HEADERSIZE + i)
       = (if com \<in> {Nex_CMD_NOP, Nex_CMD_APRD, Nex_CMD_FPRD, Nex_CMD_BRD, Nex_CMD_LRD}
          then 0 else data i)"
    using i setup_payload[of i len port frame com idx ADP ADO data] 
    by (simp only: r layout) simp
  show "(let (p, f, off) = Nexx__adddatagram port frame com idx more_flag ADP ADO len data
      in f (off + ETH_HEADERSIZE + i))
       = (if com \<in> {Nex_CMD_NOP, Nex_CMD_APRD, Nex_CMD_FPRD, Nex_CMD_BRD, Nex_CMD_LRD}
          then 0 else data i)"
    using i unfolding r[symmetric]
    by (simp add: Nexx__adddatagram_def Let_def layout writedatagramdata_inside)
qed

theorem C7_witness:
  "(0 :: int) \<le> 1 \<and> 1 < uint (2 :: uint16)
   \<and> snd (Nexx__setupdatagram (ex_port\<lparr>txbuflength := \<lambda>_. 28\<rparr>) (\<lambda>_. 0xFF) Nex_CMD_BRD 0
            0 0x0130 2 (bytes_of_list [0xAA, 0xBB])) 27 = 0
   \<and> (let (p, f, off) = Nexx__adddatagram (ex_port\<lparr>txbuflength := \<lambda>_. 28\<rparr>) (\<lambda>_. 0xFF)
                           Nex_CMD_BRD 0 False 0 0x0130 2 (bytes_of_list [0xAA, 0xBB])
        in f (off + 15)) = 0"
  using C7_payload_zero_or_copied
    [where len = 2 and com = Nex_CMD_BRD and port = "ex_port\<lparr>txbuflength := \<lambda>_. 28\<rparr>"
       and frame = "\<lambda>_. 0xFF" and idx = 0 and ADP = 0 and ADO = "0x0130"
       and data = "bytes_of_list [0xAA, 0xBB]" and more_flag = False, THEN spec, of 1]
  by (simp add: layout Nex_CMD_BRD_def Nex_CMD_NOP_def Nex_CMD_APRD_def Nex_CMD_FPRD_def
      Nex_CMD_LRD_def split_beta add.commute)

text \<open>
  C2 (as amended). For every \<^verbatim>\<open>adddatagram\<close> call on a slot whose
  \<open>txbuflength\<close> is \<open>prev\<close> before the call (a length that the \<^verbatim>\<open>uint16\<close>
  local \<open>prevlength\<close> holds, \<open>0 \<le> prev < 65536\<close>), the returned offset is
  \<open>prev + 12 - 2 - 14 = prev - 4\<close>.
\<close>

theorem C2_adddatagram_offset:
  assumes "0 \<le> txbuflength port idx" and "txbuflength port idx < 65536"
  shows "snd (snd (Nexx__adddatagram port frame com idx more_flag ADP ADO len data))
           = txbuflength port idx - 4"
  using assms by (simp add: add_ret uint16_of_int)

text \<open>The second datagram of an LRWDC frame with 8 bytes of process data.\<close>

theorem C2_witness:
  "0 \<le> txbuflength (ex_port\<lparr>txbuflength := \<lambda>_. 36\<rparr>) 0
   \<and> txbuflength (ex_port\<lparr>txbuflength := \<lambda>_. 36\<rparr>) 0 < 65536
   \<and> snd (snd (Nexx__adddatagram (ex_port\<lparr>txbuflength := \<lambda>_. 36\<rparr>) (\<lambda>_. 0) Nex_CMD_FRMW 0
               False 0x1000 ECT_REG_DCSYSTIME 8 (bytes_of_le64 0))) = 32"
  using C2_adddatagram_offset
    [of "ex_port\<lparr>txbuflength := \<lambda>_. 36\<rparr>" 0 "\<lambda>_. 0" Nex_CMD_FRMW False "0x1000"
       ECT_REG_DCSYSTIME 8 "bytes_of_le64 0"]
  by simp

text \<open>C2 as first stated, with \<open>prev - 6\<close>, fails on that call: it returns 32.\<close>

theorem C2_counterexample:
  "snd (snd (Nexx__adddatagram (ex_port\<lparr>txbuflength := \<lambda>_. 36\<rparr>) (\<lambda>_. 0) Nex_CMD_FRMW 0
               False 0x1000 ECT_REG_DCSYSTIME 8 (bytes_of_le64 0)))
     \<noteq> txbuflength (ex_port\<lparr>txbuflength := \<lambda>_. 36\<rparr>) 0 - 6"
  by (simp add: add_ret)

section \<open>The bytes adddatagram writes\<close>

text \<open>
  With \<open>P\<close> the previous length as the \<^verbatim>\<open>uint16\<close> local holds it: below the
  payload (offset \<open>P + 10\<close>) the frame holds the two updated fields of the first
  datagram and the new sub-header, which starts at \<open>P\<close>, behind the working
  counter of the datagram before it.
\<close>

lemma add_byte_below_payload:
  assumes P: "P = uint (word_of_int (txbuflength port idx) :: uint16)" and b: "b < P + 10"
  shows "fst (snd (Nexx__adddatagram port frame com idx mf ADP ADO len data)) b =
     put16 (put16 (put16
       ((put16 (put16 frame 14 (get16 frame 14 + 12 + len)) 22
           (get16 (put16 frame 14 (get16 frame 14 + 12 + len)) 22 OR Nex_DATAGRAMFOLLOWS))
        (P := com, P + 1 := idx))
       (P + 2) ADP) (P + 4) ADO) (P + 6) (if mf then len OR Nex_DATAGRAMFOLLOWS else len) b"
proof -
  define n where "n = uint len"
  have n0: "0 \<le> n" by (simp add: n_def)
  show ?thesis using b n0
    by (simp add: Nexx__adddatagram_def Let_def layout writedatagramdata_outside
        n_def[symmetric] P[symmetric] add.commute)
qed

lemma add_header_fields:
  assumes P: "P = uint (word_of_int (txbuflength port idx) :: uint16)"
  shows "fst (snd (Nexx__adddatagram port frame com idx mf ADP ADO len data)) P = com"
    and "fst (snd (Nexx__adddatagram port frame com idx mf ADP ADO len data)) (P + 1) = idx"
    and "get16 (fst (snd (Nexx__adddatagram port frame com idx mf ADP ADO len data))) (P + 2) = ADP"
    and "get16 (fst (snd (Nexx__adddatagram port frame com idx mf ADP ADO len data))) (P + 4) = ADO"
    and "get16 (fst (snd (Nexx__adddatagram port frame com idx mf ADP ADO len data))) (P + 6)
           = (if mf then len OR Nex_DATAGRAMFOLLOWS else len)"
proof -
  let ?f = "fst (snd (Nexx__adddatagram port frame com idx mf ADP ADO len data))"
  let ?g = "(put16 (put16 frame 14 (get16 frame 14 + 12 + len)) 22
           (get16 (put16 frame 14 (get16 frame 14 + 12 + len)) 22 OR Nex_DATAGRAMFOLLOWS))
        (P := com, P + 1 := idx)"
  let ?X = "if mf then len OR Nex_DATAGRAMFOLLOWS else len"
  have low: "\<And>b. b < P + 10 \<Longrightarrow>
      ?f b = put16 (put16 (put16 ?g (P + 2) ADP) (P + 4) ADO) (P + 6) ?X b"
    by (rule add_byte_below_payload [OF P])
  show "?f P = com" by (simp add: low put16_other)
  show "?f (P + 1) = idx" by (simp add: low put16_other)
  have "get16 ?f (P + 2) = get16 (put16 ?g (P + 2) ADP) (P + 2)"
    by (rule get16_cong) (simp_all add: low put16_other)
  then show "get16 ?f (P + 2) = ADP" by (simp only: get16_put16)
  have "get16 ?f (P + 4) = get16 (put16 (put16 ?g (P + 2) ADP) (P + 4) ADO) (P + 4)"
    by (rule get16_cong) (simp_all add: low put16_other)
  then show "get16 ?f (P + 4) = ADO" by (simp only: get16_put16)
  have "get16 ?f (P + 6) = get16 (put16 (put16 (put16 ?g (P + 2) ADP) (P + 4) ADO) (P + 6) ?X) (P + 6)"
    by (rule get16_cong) (simp_all add: low)
  then show "get16 ?f (P + 6) = ?X" by (simp only: get16_put16)
qed

lemma add_byte_before:
  assumes P: "P = uint (word_of_int (txbuflength port idx) :: uint16)" and b: "b < P"
  shows "fst (snd (Nexx__adddatagram port frame com idx mf ADP ADO len data)) b =
     put16 (put16 frame 14 (get16 frame 14 + 12 + len)) 22
           (get16 (put16 frame 14 (get16 frame 14 + 12 + len)) 22 OR Nex_DATAGRAMFOLLOWS) b"
  using b by (simp add: add_byte_below_payload [OF P] put16_other)

lemma add_elength:
  assumes P: "P = uint (word_of_int (txbuflength port idx) :: uint16)" and "16 \<le> P"
  shows "get16 (fst (snd (Nexx__adddatagram port frame com idx mf ADP ADO len data))) 14
           = get16 frame 14 + 12 + len"
proof -
  have "get16 (fst (snd (Nexx__adddatagram port frame com idx mf ADP ADO len data))) 14
      = get16 (put16 frame 14 (get16 frame 14 + 12 + len)) 14"
    using assms(2) by (intro get16_cong) (simp_all add: add_byte_before [OF P] put16_other)
  then show ?thesis by (simp only: get16_put16)
qed

lemma add_first_dlength:
  assumes P: "P = uint (word_of_int (txbuflength port idx) :: uint16)" and "24 \<le> P"
  shows "get16 (fst (snd (Nexx__adddatagram port frame com idx mf ADP ADO len data))) 22
           = get16 frame 22 OR Nex_DATAGRAMFOLLOWS"
proof -
  let ?E = "get16 frame 14 + 12 + len"
  have "get16 (fst (snd (Nexx__adddatagram port frame com idx mf ADP ADO len data))) 22
      = get16 (put16 (put16 frame 14 ?E) 22 (get16 (put16 frame 14 ?E) 22 OR Nex_DATAGRAMFOLLOWS)) 22"
    using assms(2) by (intro get16_cong) (simp_all add: add_byte_before [OF P])
  also have "\<dots> = get16 (put16 frame 14 ?E) 22 OR Nex_DATAGRAMFOLLOWS"
    by (simp only: get16_put16)
  also have "get16 (put16 frame 14 ?E) 22 = get16 frame 22"
    by (rule get16_cong) (simp_all add: put16_other)
  finally show ?thesis .
qed

lemma add_unchanged:
  assumes P: "P = uint (word_of_int (txbuflength port idx) :: uint16)"
    and "24 \<le> b" and "b < P"
  shows "fst (snd (Nexx__adddatagram port frame com idx mf ADP ADO len data)) b = frame b"
  using assms(2,3) by (simp add: add_byte_before [OF P] put16_other)

section \<open>Frames of several datagrams\<close>

lemma sum_len_nonneg: "0 \<le> sum_len ds"
  by (induction ds) (simp_all add: sum_len_def)

lemma sum_len_append: "sum_len (xs @ ys) = sum_len xs + sum_len ys"
  by (simp add: sum_len_def)

lemma sum_len_take_le: "sum_len (take j ds) \<le> sum_len ds"
proof -
  have "sum_len ds = sum_len (take j ds) + sum_len (drop j ds)"
    by (simp only: sum_len_append [symmetric] append_take_drop_id)
  then show ?thesis using sum_len_nonneg [of "drop j ds"] by linarith
qed

lemma dlength_offset_snoc:
  "j \<le> length ds \<Longrightarrow> dlength_offset (ds @ [d]) j = dlength_offset ds j"
  by (simp add: dlength_offset_def)

lemma dlength_offset_upper:
  assumes "j < length ds"
  shows "dlength_offset ds j + 1 < 16 + 12 * int (length ds) + sum_len ds"
proof -
  have "int j + 1 \<le> int (length ds)" using assms by simp
  then show ?thesis
    using sum_len_take_le [of j ds] by (simp add: dlength_offset_def)
qed

lemma dlength_offset_lower: "1 \<le> j \<Longrightarrow> 34 \<le> dlength_offset ds j"
  using sum_len_nonneg [of "take j ds"] by (simp add: dlength_offset_def)

lemma build_frame_snoc:
  "build_frame port frame idx d0 (ds @ [d]) = add_step idx (build_frame port frame idx d0 ds) d"
  by (simp add: build_frame_def)

lemma add_step_eq:
  "add_step idx pf d =
     (fst (Nexx__adddatagram (fst pf) (snd pf) (dg_com d) idx (dg_more d) (dg_ADP d) (dg_ADO d)
            (dg_len d) (dg_data d)),
      fst (snd (Nexx__adddatagram (fst pf) (snd pf) (dg_com d) idx (dg_more d) (dg_ADP d)
            (dg_ADO d) (dg_len d) (dg_data d))))"
  by (simp add: add_step_def split_beta)

lemma setup_dlength:
  "get16 (snd (Nexx__setupdatagram port frame com idx ADP ADO len data)) 22 = len"
proof -
  have "get16 (snd (Nexx__setupdatagram port frame com idx ADP ADO len data)) 22
      = get16 (put16 (put16 (put16
        ((put16 frame 14 (Nex_ECATTYPE + 12 + len))(16 := com, 17 := idx)) 18 ADP) 20 ADO)
        22 len) 22"
    by (rule get16_cong) (simp_all add: setup_byte_low)
  then show ?thesis by (simp only: get16_put16)
qed

lemma or_follows_absorb:
  "(w OR (if c then Nex_DATAGRAMFOLLOWS else 0)) OR Nex_DATAGRAMFOLLOWS = w OR Nex_DATAGRAMFOLLOWS"
  by (simp add: or.assoc)

text \<open>
  The state of a frame after one \<^verbatim>\<open>setupdatagram\<close> and any number of
  \<^verbatim>\<open>adddatagram\<close> calls, as long as the length fits the \<^verbatim>\<open>uint16\<close> local:
  the slot length, the EtherCAT length word, and the dlength field of every
  datagram.
\<close>

lemma build_frame_inv:
  assumes "12 * (int (length ds) + 1) + sum_len (d0 # ds) < 65520"
  shows "txbuflength (fst (build_frame port frame idx d0 ds)) idx
           = 16 + 12 * int (length (d0 # ds)) + sum_len (d0 # ds)
       \<and> get16 (snd (build_frame port frame idx d0 ds)) 14
           = Nex_ECATTYPE + word_of_int (12 * int (length (d0 # ds)) + sum_len (d0 # ds))
       \<and> (\<forall>j < length (d0 # ds).
            get16 (snd (build_frame port frame idx d0 ds)) (dlength_offset (d0 # ds) j)
              = dg_len ((d0 # ds) ! j)
                  OR (if follows_expected (d0 # ds) j then Nex_DATAGRAMFOLLOWS else 0))"
  using assms
proof (induction ds rule: rev_induct)
  case Nil
  show ?case
    by (simp add: build_frame_def setup_len setup_elength setup_dlength sum_len_def
        dlength_offset_def follows_expected_def)
next
  case (snoc d ds)
  let ?all = "d0 # ds"
  let ?S = "build_frame port frame idx d0 ds"
  let ?A = "Nexx__adddatagram (fst ?S) (snd ?S) (dg_com d) idx (dg_more d) (dg_ADP d)
              (dg_ADO d) (dg_len d) (dg_data d)"
  define T where "T = 16 + 12 * int (length ?all) + sum_len ?all"
  have app: "d0 # ds @ [d] = ?all @ [d]" by simp
  have sl: "sum_len (?all @ [d]) = sum_len ?all + uint (dg_len d)"
    by (simp add: sum_len_def)
  have u0: "0 \<le> uint (dg_len d)" by simp
  have bound': "12 * (int (length ds) + 2) + (sum_len ?all + uint (dg_len d)) < 65520"
    using snoc.prems unfolding app sl by simp
  have bound: "12 * (int (length ds) + 1) + sum_len ?all < 65520"
    using bound' u0 by arith
  note IH = snoc.IH [OF bound]
  have Tl: "txbuflength (fst ?S) idx = T" using IH by (simp add: T_def)
  have T28: "28 \<le> T" using sum_len_nonneg [of ?all] by (simp add: T_def)
  have T64: "T < 65536" using bound by (simp add: T_def)
  have P: "T = uint (word_of_int (txbuflength (fst ?S) idx) :: uint16)"
    using T28 T64 by (simp add: Tl uint16_of_int)
  have S': "build_frame port frame idx d0 (ds @ [d]) = (fst ?A, fst (snd ?A))"
    by (simp only: build_frame_snoc add_step_eq)
  have c1: "txbuflength (fst ?A) idx = 16 + 12 * int (length (?all @ [d])) + sum_len (?all @ [d])"
    unfolding sl by (simp add: add_len P [symmetric] T_def)
  have "get16 (fst (snd ?A)) 14 = get16 (snd ?S) 14 + 12 + dg_len d"
    using T28 by (intro add_elength [OF P]) simp
  also have "get16 (snd ?S) 14
      = Nex_ECATTYPE + word_of_int (12 * int (length ?all) + sum_len ?all)"
    using IH by simp
  finally have c2: "get16 (fst (snd ?A)) 14
      = Nex_ECATTYPE + word_of_int (12 * int (length (?all @ [d])) + sum_len (?all @ [d]))"
    unfolding sl by (simp add: algebra_simps)
  have c3: "get16 (fst (snd ?A)) (dlength_offset (?all @ [d]) j)
              = dg_len ((?all @ [d]) ! j)
                  OR (if follows_expected (?all @ [d]) j then Nex_DATAGRAMFOLLOWS else 0)"
    if j: "j < length (?all @ [d])" for j
  proof (cases "j = length ?all")
    case True
    have o: "dlength_offset (?all @ [d]) j = T + 6"
      unfolding True by (simp add: dlength_offset_snoc) (simp add: dlength_offset_def T_def)
    have fe: "follows_expected (?all @ [d]) j = dg_more d"
      unfolding True follows_expected_def by (simp add: nth_append)
    have nt: "(?all @ [d]) ! j = d" unfolding True by (simp add: nth_append)
    show ?thesis unfolding o fe nt
      by (simp add: add_header_fields(5) [OF P])
  next
    case False
    then have jl: "j < length ?all" using j by simp
    have o: "dlength_offset (?all @ [d]) j = dlength_offset ?all j"
      using jl by (intro dlength_offset_snoc) simp
    have nt: "(?all @ [d]) ! j = ?all ! j" using jl by (simp only: nth_append if_True)
    have old: "get16 (snd ?S) (dlength_offset ?all j)
        = dg_len (?all ! j) OR (if follows_expected ?all j then Nex_DATAGRAMFOLLOWS else 0)"
      using IH jl by blast
    show ?thesis
    proof (cases "j = 0")
      case True
      have o0: "dlength_offset ?all 0 = 22" by (simp add: dlength_offset_def sum_len_def)
      have o': "dlength_offset (?all @ [d]) 0 = 22" by (simp add: dlength_offset_def sum_len_def)
      have fe: "follows_expected (?all @ [d]) 0" by (simp add: follows_expected_def)
      have "get16 (fst (snd ?A)) 22 = get16 (snd ?S) 22 OR Nex_DATAGRAMFOLLOWS"
        using T28 by (intro add_first_dlength [OF P]) simp
      also have "get16 (snd ?S) 22
          = dg_len (?all ! 0) OR (if follows_expected ?all 0 then Nex_DATAGRAMFOLLOWS else 0)"
        using old unfolding True o0 .
      finally have e: "get16 (fst (snd ?A)) 22 = dg_len d0 OR Nex_DATAGRAMFOLLOWS"
        by (simp only: or_follows_absorb nth_Cons_0)
      show ?thesis unfolding True o' using e fe by simp
    next
      case False
      then have j1: "1 \<le> j" by simp
      have lo: "24 \<le> dlength_offset ?all j" using dlength_offset_lower [OF j1, of ?all] by simp
      have hi: "dlength_offset ?all j + 1 < T"
        using dlength_offset_upper [OF jl] by (simp add: T_def)
      have fe: "follows_expected (?all @ [d]) j = follows_expected ?all j"
        using False unfolding follows_expected_def nt by simp
      have "get16 (fst (snd ?A)) (dlength_offset ?all j) = get16 (snd ?S) (dlength_offset ?all j)"
        using lo hi by (intro get16_cong add_unchanged [OF P]) simp_all
      then show ?thesis unfolding o nt fe using old by simp
    qed
  qed
  show ?case unfolding app S' fst_conv snd_conv
    using c1 c2 c3 by blast
qed

lemma small_area:
  assumes "0 \<le> A" and "A < 4096"
  shows "(0x1000 :: uint16) + word_of_int A = 0x1000 OR word_of_int A"
proof -
  have "uint (word_of_int A :: uint16) = A" using assms by (simp add: uint16_of_int)
  then have "(word_of_int A :: uint16) < 0x1000"
    using assms by (simp add: word_less_alt)
  then show ?thesis by (rule type_or_add)
qed

lemma ex_sum_len: "sum_len [ex_lrw, ex_frmw] = 16" "sum_len [ex_lrw, ex_frmw, ex_frmw] = 24"
  "sum_len [ex_lrw, ex_frmw\<lparr>dg_more := True\<rparr>, ex_frmw] = 24"
  by (simp_all add: sum_len_def ex_lrw_def ex_frmw_def)

text \<open>
  C3 (as amended). For a frame built by one \<^verbatim>\<open>setupdatagram\<close> call followed by
  \<open>k\<close> \<^verbatim>\<open>adddatagram\<close> calls with payload lengths \<open>L0 \<dots> Lk\<close>, where
  \<open>12 * (k + 1) + (L0 + \<dots> + Lk)\<close> fits the length field (is below 4096), the
  final \<open>txbuflength\<close> is \<open>14 + 12 * (k + 1) + (L0 + \<dots> + Lk) + 2\<close> and the
  little-endian EtherCAT header word at offset 14 is the type constant OR'd with
  \<open>12 * (k + 1) + (L0 + \<dots> + Lk)\<close>; and each \<^verbatim>\<open>adddatagram\<close> call on a slot
  of length \<open>prev\<close> (\<open>0 \<le> prev < 65536\<close>) sets \<open>txbuflength\<close> to
  \<open>prev - 2 + 12 + length + 2\<close>.
\<close>

theorem C3_frame_length_and_header:
  assumes "12 * (int (length ds) + 1) + sum_len (d0 # ds) < 4096"
  shows "txbuflength (fst (build_frame port frame idx d0 ds)) idx
           = 14 + 12 * (int (length ds) + 1) + sum_len (d0 # ds) + 2
       \<and> get16 (snd (build_frame port frame idx d0 ds)) 14
           = Nex_ECATTYPE OR word_of_int (12 * (int (length ds) + 1) + sum_len (d0 # ds))
       \<and> (0 \<le> txbuflength p i \<and> txbuflength p i < 65536 \<longrightarrow>
            txbuflength (fst (Nexx__adddatagram p f com i more_flag ADP ADO len data)) i
              = txbuflength p i - 2 + 12 + uint len + 2)"
proof -
  let ?A = "12 * (int (length ds) + 1) + sum_len (d0 # ds)"
  have b: "?A < 65520" using assms by simp
  have A0: "0 \<le> ?A" using sum_len_nonneg [of "d0 # ds"] by simp
  have l: "txbuflength (fst (build_frame port frame idx d0 ds)) idx = 14 + ?A + 2"
    using build_frame_inv [OF b, of port frame idx] by simp
  have "get16 (snd (build_frame port frame idx d0 ds)) 14 = Nex_ECATTYPE + word_of_int ?A"
    using build_frame_inv [OF b, of port frame idx] by (simp add: algebra_simps)
  also have "\<dots> = Nex_ECATTYPE OR word_of_int ?A"
    unfolding Nex_ECATTYPE_def by (rule small_area [OF A0 assms])
  finally have e: "get16 (snd (build_frame port frame idx d0 ds)) 14
      = Nex_ECATTYPE OR word_of_int ?A" .
  have a: "0 \<le> txbuflength p i \<and> txbuflength p i < 65536 \<longrightarrow>
            txbuflength (fst (Nexx__adddatagram p f com i more_flag ADP ADO len data)) i
              = txbuflength p i - 2 + 12 + uint len + 2"
    by (simp add: add_len uint16_of_int)
  show ?thesis using l e a by simp
qed

text \<open>The LRWDC frame with 8 bytes of process data: 56 bytes, length word 0x1028.\<close>

theorem C3_witness:
  "12 * (int (length [ex_frmw]) + 1) + sum_len (ex_lrw # [ex_frmw]) < 4096
   \<and> txbuflength (fst (build_frame ex_port (\<lambda>_. 0) 0 ex_lrw [ex_frmw])) 0 = 56
   \<and> get16 (snd (build_frame ex_port (\<lambda>_. 0) 0 ex_lrw [ex_frmw])) 14 = 0x1028
   \<and> 0 \<le> txbuflength (ex_port\<lparr>txbuflength := \<lambda>_. 36\<rparr>) 0
   \<and> txbuflength (ex_port\<lparr>txbuflength := \<lambda>_. 36\<rparr>) 0 < 65536
   \<and> txbuflength (fst (Nexx__adddatagram (ex_port\<lparr>txbuflength := \<lambda>_. 36\<rparr>) (\<lambda>_. 0)
         Nex_CMD_FRMW 0 False 0x1000 ECT_REG_DCSYSTIME 8 (bytes_of_le64 0))) 0 = 56"
  using C3_frame_length_and_header
    [where ds = "[ex_frmw]" and ?d0.0 = ex_lrw and port = ex_port and frame = "\<lambda>_. 0"
       and idx = 0 and p = "ex_port\<lparr>txbuflength := \<lambda>_. 36\<rparr>" and i = 0 and f = "\<lambda>_. 0"
       and com = Nex_CMD_FRMW and more_flag = False and ADP = "0x1000"
       and ADO = ECT_REG_DCSYSTIME and len = 8 and data = "bytes_of_le64 0"]
  by (simp add: ex_sum_len Nex_ECATTYPE_def)

text \<open>
  C3 as first stated, with 10 bytes for each datagram header, would make that
  frame 52 bytes long.
\<close>

theorem C3_counterexample:
  "txbuflength (fst (build_frame ex_port (\<lambda>_. 0) 0 ex_lrw [ex_frmw])) 0
     \<noteq> 14 + 10 * (1 + 1) + (8 + 8) + 2"
  using build_frame_inv [of "[ex_frmw]" ex_lrw ex_port "\<lambda>_. 0" 0]
  by (simp add: ex_sum_len)

lemma elem_le_sum_len: "d \<in> set ds \<Longrightarrow> uint (dg_len d) \<le> sum_len ds"
proof (induction ds)
  case Nil
  then show ?case by simp
next
  case (Cons a ds)
  have s: "sum_len (a # ds) = uint (dg_len a) + sum_len ds" by (simp add: sum_len_def)
  show ?case
  proof (cases "d = a")
    case True
    then show ?thesis unfolding s using sum_len_nonneg [of ds] by simp
  next
    case False
    then have "uint (dg_len d) \<le> sum_len ds" using Cons by simp
    moreover have "0 \<le> uint (dg_len a)" by simp
    ultimately show ?thesis unfolding s by linarith
  qed
qed

lemma small_len_no_bit15:
  assumes "uint (w :: uint16) < 4096"
  shows "\<not> bit w 15"
proof -
  have "uint w < uint (0x8000 :: uint16)" using assms by simp
  then have "w < 0x8000" by (simp only: word_less_alt)
  then show ?thesis by (rule no_bit15)
qed

lemma prefix_bound:
  assumes "m < length ds"
  shows "12 * (int (length (take (m + 1) ds)) + 1) + sum_len (d0 # take (m + 1) ds)
           \<le> 12 * (int (length ds) + 1) + sum_len (d0 # ds)"
proof -
  have "sum_len (take (Suc (m + 1)) (d0 # ds)) \<le> sum_len (d0 # ds)"
    by (rule sum_len_take_le)
  then have "sum_len (d0 # take (m + 1) ds) \<le> sum_len (d0 # ds)" by simp
  moreover have "int (length (take (m + 1) ds)) \<le> int (length ds)" by simp
  ultimately show ?thesis by arith
qed

lemma dlength_offset_prefix:
  "dlength_offset (d0 # take (m + 1) ds) m = dlength_offset (d0 # ds) m"
  by (cases m) (simp_all add: dlength_offset_def min_def)

lemma preceding_bit_after_add:
  assumes b: "12 * (int (length ds) + 1) + sum_len (d0 # ds) < 4096"
    and mo: "\<forall>j < length ds. dg_more (ds ! j) = (j + 1 < length ds)"
    and m: "m < length ds"
  shows "bit (get16 (snd (build_frame port frame idx d0 (take (m + 1) ds)))
                (dlength_offset (d0 # ds) m)) 15"
proof -
  let ?pre = "take (m + 1) ds"
  have lp: "length ?pre = m + 1" using m by simp
  have bp: "12 * (int (length ?pre) + 1) + sum_len (d0 # ?pre) < 65520"
    using prefix_bound [OF m, of d0] b by linarith
  have ml: "m < length (d0 # ?pre)" using lp by simp
  have v: "get16 (snd (build_frame port frame idx d0 ?pre)) (dlength_offset (d0 # ?pre) m)
      = dg_len ((d0 # ?pre) ! m)
          OR (if follows_expected (d0 # ?pre) m then Nex_DATAGRAMFOLLOWS else 0)"
    using build_frame_inv [OF bp, of port frame idx] ml by blast
  have fe: "follows_expected (d0 # ?pre) m"
  proof (cases m)
    case 0
    then show ?thesis using lp by (simp add: follows_expected_def)
  next
    case (Suc k)
    then have k: "k < length ds" and k1: "k + 1 < length ds" using m by simp_all
    have "dg_more (ds ! k)" using mo k k1 by blast
    then show ?thesis unfolding Suc using k by (simp add: follows_expected_def)
  qed
  have "get16 (snd (build_frame port frame idx d0 ?pre)) (dlength_offset (d0 # ds) m)
      = dg_len ((d0 # ?pre) ! m) OR Nex_DATAGRAMFOLLOWS"
    using v fe unfolding dlength_offset_prefix by (simp only: if_True)
  then show ?thesis by (simp only: follows_bit15)
qed

text \<open>
  What one \<^verbatim>\<open>adddatagram\<close> call does to the "more follows" bits: it sets bit
  15 of the dlength of the first datagram of the frame (offset 22), and gives the
  datagram it appends the bit exactly when \<open>more\<close> is true.
\<close>

lemma adddatagram_more_bits:
  assumes "24 \<le> txbuflength p i" and "txbuflength p i < 65536"
  shows "bit (get16 (fst (snd (Nexx__adddatagram p f com i more_flag ADP ADO len data))) 22) 15"
    and "len < 0x8000 \<Longrightarrow>
         bit (get16 (fst (snd (Nexx__adddatagram p f com i more_flag ADP ADO len data)))
                (txbuflength p i + 6)) 15 = more_flag"
proof -
  have P: "txbuflength p i = uint (word_of_int (txbuflength p i) :: uint16)"
    using assms by (simp add: uint16_of_int)
  have "get16 (fst (snd (Nexx__adddatagram p f com i more_flag ADP ADO len data))) 22
      = get16 f 22 OR Nex_DATAGRAMFOLLOWS"
    using assms by (intro add_first_dlength [OF P]) simp
  then show "bit (get16 (fst (snd (Nexx__adddatagram p f com i more_flag ADP ADO len data))) 22) 15"
    by (simp only: follows_bit15)
  show "bit (get16 (fst (snd (Nexx__adddatagram p f com i more_flag ADP ADO len data)))
                (txbuflength p i + 6)) 15 = more_flag" if l: "len < 0x8000"
    unfolding add_header_fields(5) [OF P] using no_bit15 [OF l] by (simp add: follows_bit15)
qed

lemma last_and_earlier_bits:
  assumes "12 * (int (length ds) + 1) + sum_len (d0 # ds) < 4096"
    and "\<forall>j < length ds. dg_more (ds ! j) = (j + 1 < length ds)"
    and j: "j \<le> length ds"
  shows "bit (get16 (snd (build_frame port frame idx d0 ds)) (dlength_offset (d0 # ds) j)) 15
              \<longleftrightarrow> j < length ds"
proof -
  let ?all = "d0 # ds"
  have b: "12 * (int (length ds) + 1) + sum_len ?all < 65520" using assms(1) by simp
  have jl: "j < length ?all" using j by simp
  have v: "get16 (snd (build_frame port frame idx d0 ds)) (dlength_offset ?all j)
      = dg_len (?all ! j) OR (if follows_expected ?all j then Nex_DATAGRAMFOLLOWS else 0)"
    using build_frame_inv [OF b, of port frame idx] jl by blast
  have "?all ! j \<in> set ?all" using jl by (rule nth_mem)
  then have "uint (dg_len (?all ! j)) \<le> sum_len ?all" by (rule elem_le_sum_len)
  then have "uint (dg_len (?all ! j)) < 4096" using assms(1) by simp
  then have nb: "\<not> bit (dg_len (?all ! j)) 15" by (rule small_len_no_bit15)
  have fe: "follows_expected ?all j \<longleftrightarrow> j < length ds"
  proof (cases j)
    case 0
    then show ?thesis by (simp add: follows_expected_def)
  next
    case (Suc m)
    then have "m < length ds" using j by simp
    then have "dg_more (ds ! m) = (m + 1 < length ds)" using assms(2) by blast
    then show ?thesis unfolding Suc by (simp add: follows_expected_def)
  qed
  show ?thesis unfolding v fe using nb by (simp add: follows_bit15)
qed

text \<open>
  C4 (as amended). In every frame built by one \<^verbatim>\<open>setupdatagram\<close> call and any
  number of \<^verbatim>\<open>adddatagram\<close> calls, with \<open>more = true\<close> passed on every
  \<^verbatim>\<open>adddatagram\<close> call but the last and \<open>more = false\<close> on the last (and a
  datagram area below 4096 bytes), bit 15 of the dlength field is set for every
  datagram except the last and clear for the last; and after each of these
  \<^verbatim>\<open>adddatagram\<close> calls (the \<open>m + 1\<close>-th call leaves the frame of the first
  \<open>m + 1\<close> added datagrams) the "more follows" bit of the dlength of the
  datagram immediately before the new one is set.
\<close>

theorem C4_more_follows_bits:
  assumes "12 * (int (length ds) + 1) + sum_len (d0 # ds) < 4096"
    and "\<forall>j < length ds. dg_more (ds ! j) = (j + 1 < length ds)"
  shows "(\<forall>j \<le> length ds.
            bit (get16 (snd (build_frame port frame idx d0 ds)) (dlength_offset (d0 # ds) j)) 15
              \<longleftrightarrow> j < length ds)
       \<and> (\<forall>m < length ds.
            bit (get16 (snd (build_frame port frame idx d0 (take (m + 1) ds)))
                   (dlength_offset (d0 # ds) m)) 15)"
  using last_and_earlier_bits [OF assms] preceding_bit_after_add [OF assms] by blast

text \<open>
  Three datagrams, the second added with \<open>more = true\<close>, the third with
  \<open>more = false\<close>: dlength fields at offsets 22, 42 and 62.
\<close>

theorem C4_witness:
  "12 * (int (length [ex_frmw\<lparr>dg_more := True\<rparr>, ex_frmw]) + 1)
      + sum_len (ex_lrw # [ex_frmw\<lparr>dg_more := True\<rparr>, ex_frmw]) < 4096
   \<and> dg_more ([ex_frmw\<lparr>dg_more := True\<rparr>, ex_frmw] ! 0)
   \<and> \<not> dg_more ([ex_frmw\<lparr>dg_more := True\<rparr>, ex_frmw] ! 1)
   \<and> bit (get16 (snd (build_frame ex_port (\<lambda>_. 0) 0 ex_lrw
                        [ex_frmw\<lparr>dg_more := True\<rparr>, ex_frmw])) 22) 15
   \<and> bit (get16 (snd (build_frame ex_port (\<lambda>_. 0) 0 ex_lrw
                        [ex_frmw\<lparr>dg_more := True\<rparr>, ex_frmw])) 42) 15
   \<and> \<not> bit (get16 (snd (build_frame ex_port (\<lambda>_. 0) 0 ex_lrw
                        [ex_frmw\<lparr>dg_more := True\<rparr>, ex_frmw])) 62) 15
   \<and> bit (get16 (snd (build_frame ex_port (\<lambda>_. 0) 0 ex_lrw
                        [ex_frmw\<lparr>dg_more := True\<rparr>])) 22) 15"
proof -
  let ?ds = "[ex_frmw\<lparr>dg_more := True\<rparr>, ex_frmw]"
  have h1: "12 * (int (length ?ds) + 1) + sum_len (ex_lrw # ?ds) < 4096"
    by (simp add: ex_sum_len)
  have h2: "\<forall>j < length ?ds. dg_more (?ds ! j) = (j + 1 < length ?ds)"
    by (simp add: ex_frmw_def less_Suc_eq numeral_2_eq_2)
  have o: "dlength_offset (ex_lrw # ?ds) 0 = 22" "dlength_offset (ex_lrw # ?ds) 1 = 42"
    "dlength_offset (ex_lrw # ?ds) 2 = 62"
    by (simp_all add: dlength_offset_def sum_len_def ex_lrw_def ex_frmw_def)
  note t = C4_more_follows_bits [OF h1 h2, where port = ex_port and frame = "\<lambda>_. 0" and idx = 0]
  from t have a: "\<forall>j \<le> length ?ds.
            bit (get16 (snd (build_frame ex_port (\<lambda>_. 0) 0 ex_lrw ?ds))
                   (dlength_offset (ex_lrw # ?ds) j)) 15 \<longleftrightarrow> j < length ?ds"
    by (rule conjunct1)
  from t have c: "\<forall>m < length ?ds.
            bit (get16 (snd (build_frame ex_port (\<lambda>_. 0) 0 ex_lrw (take (m + 1) ?ds)))
                   (dlength_offset (ex_lrw # ?ds) m)) 15"
    by (rule conjunct2)
  have a0: "bit (get16 (snd (build_frame ex_port (\<lambda>_. 0) 0 ex_lrw ?ds)) 22) 15"
    using a [THEN spec, of 0] unfolding o by simp
  have a1: "bit (get16 (snd (build_frame ex_port (\<lambda>_. 0) 0 ex_lrw ?ds)) 42) 15"
    using a [THEN spec, of 1] unfolding o by simp
  have a2: "\<not> bit (get16 (snd (build_frame ex_port (\<lambda>_. 0) 0 ex_lrw ?ds)) 62) 15"
    using a [THEN spec, of 2] unfolding o by simp
  have c0: "bit (get16 (snd (build_frame ex_port (\<lambda>_. 0) 0 ex_lrw
                        [ex_frmw\<lparr>dg_more := True\<rparr>])) 22) 15"
    using c [THEN spec, of 0] unfolding o by simp
  have m: "dg_more (?ds ! 0)" "\<not> dg_more (?ds ! 1)" by (simp_all add: ex_frmw_def)
  show ?thesis using h1 m a0 a1 a2 c0 by simp
qed

text \<open>
  C4 as first stated fails when a datagram is added behind one that was itself
  added with \<open>more = false\<close>: the second of three datagrams keeps bit 15 clear,
  because the third call sets the bit of the first datagram, not of the second.
\<close>

theorem C4_counterexample:
  "dg_more ([ex_frmw, ex_frmw] ! 1) = False
   \<and> dlength_offset (ex_lrw # [ex_frmw, ex_frmw]) 1 = 42
   \<and> \<not> bit (get16 (snd (build_frame ex_port (\<lambda>_. 0) 0 ex_lrw [ex_frmw, ex_frmw])) 42) 15"
proof -
  have o: "dlength_offset (ex_lrw # [ex_frmw, ex_frmw]) 1 = 42"
    by (simp add: dlength_offset_def sum_len_def ex_lrw_def)
  have "get16 (snd (build_frame ex_port (\<lambda>_. 0) 0 ex_lrw [ex_frmw, ex_frmw]))
          (dlength_offset (ex_lrw # [ex_frmw, ex_frmw]) 1)
        = dg_len ((ex_lrw # [ex_frmw, ex_frmw]) ! 1)
            OR (if follows_expected (ex_lrw # [ex_frmw, ex_frmw]) 1 then Nex_DATAGRAMFOLLOWS else 0)"
    using build_frame_inv [of "[ex_frmw, ex_frmw]" ex_lrw ex_port "\<lambda>_. 0" 0]
    by (simp add: ex_sum_len)
  then have "get16 (snd (build_frame ex_port (\<lambda>_. 0) 0 ex_lrw [ex_frmw, ex_frmw])) 42 = 8"
    unfolding o by (simp add: follows_expected_def ex_frmw_def)
  then show ?thesis using o by (simp add: ex_frmw_def)
qed

section \<open>The frame LRWDC sends\<close>

lemma add_payload:
  assumes P: "P = uint (word_of_int (txbuflength port idx) :: uint16)"
    and i: "0 \<le> i" "i < uint len"
  shows "fst (snd (Nexx__adddatagram port frame com idx mf ADP ADO len data)) (P + 10 + i)
           = (if is_read_cmd com then 0 else data i)"
  using i by (simp add: Nexx__adddatagram_def Let_def layout writedatagramdata_inside P [symmetric])

lemma setup_in_slot_len:
  "txbuflength (snd (setup_in_slot com env port ADP ADO len data))
     (fst (setup_in_slot com env port ADP ADO len data)) = 28 + uint len"
  by (simp add: setup_in_slot_def Let_def split_beta setup_len)

lemma setup_in_slot_dlength:
  "get16 (txbuf (snd (setup_in_slot com env port ADP ADO len data))
     (fst (setup_in_slot com env port ADP ADO len data))) 22 = len"
  by (simp add: setup_in_slot_def Let_def split_beta setup_dlength)

text \<open>
  The second datagram of every LRWDC frame (process data of at most 1486 bytes):
  an FRMW sub-header behind the first working counter, with ADP \<open>DCrs\<close>, ADO
  0x0910 and, as its length, the size of a pointer; the first datagram's
  "more follows" bit is set. With 8-byte pointers this is the 8-byte datagram
  carrying the little-endian time.
\<close>

lemma LRWDC_build_second_datagram:
  assumes "len \<le> 1486"
  shows "(let (idx, DCtO, p) = LRWDC_build env port LogAdr len data DCrs DCtime;
              f = txbuf p idx; P = 28 + uint len
          in f P = Nex_CMD_FRMW \<and> f (P + 1) = idx \<and> get16 f (P + 2) = DCrs
             \<and> get16 f (P + 4) = ECT_REG_DCSYSTIME
             \<and> get16 f (P + 6) = sizeof_ptr env
             \<and> (\<forall>i. 0 \<le> i \<and> i < uint (sizeof_ptr env) \<longrightarrow>
                   f (P + 10 + i) = bytes_of_le64 DCtime i)
             \<and> txbuflength p idx = P + 12 + uint (sizeof_ptr env)
             \<and> uint DCtO = P - 4
             \<and> bit (get16 f 22) 15)"
proof -
  let ?s = "setup_in_slot Nex_CMD_LRW env port (LO_WORD LogAdr) (HI_WORD LogAdr) len data"
  let ?idx = "fst ?s" and ?p3 = "snd ?s"
  let ?A = "Nexx__adddatagram ?p3 (txbuf ?p3 ?idx) Nex_CMD_FRMW ?idx False DCrs
              ECT_REG_DCSYSTIME (sizeof_ptr env) (bytes_of_le64 DCtime)"
  let ?P = "28 + uint len"
  have "uint len \<le> 1486" using assms by (simp add: word_le_def)
  then have r: "0 \<le> ?P" "?P < 65536" "24 \<le> ?P" by simp_all
  have tl: "txbuflength ?p3 ?idx = ?P" by (rule setup_in_slot_len)
  have P: "?P = uint (word_of_int (txbuflength ?p3 ?idx) :: uint16)"
    unfolding tl by (rule uint16_of_int [OF r(1) r(2), symmetric])
  have B: "LRWDC_build env port LogAdr len data DCrs DCtime
      = (?idx, word_of_int (snd (snd ?A)), (fst ?A)\<lparr>txbuf := (txbuf (fst ?A))(?idx := fst (snd ?A))\<rparr>)"
    by (simp add: LRWDC_build_def Let_def split_beta)
  have nr: "\<not> is_read_cmd Nex_CMD_FRMW"
    by (simp add: is_read_cmd_def Nex_CMD_FRMW_def Nex_CMD_NOP_def Nex_CMD_APRD_def
        Nex_CMD_FPRD_def Nex_CMD_BRD_def Nex_CMD_LRD_def)
  have pay: "\<forall>i. 0 \<le> i \<and> i < uint (sizeof_ptr env) \<longrightarrow>
      fst (snd ?A) (?P + 10 + i) = bytes_of_le64 DCtime i"
    using add_payload [OF P, of _ "sizeof_ptr env"] nr by simp
  have l: "txbuflength (fst ?A) ?idx = ?P + 12 + uint (sizeof_ptr env)"
    by (simp only: add_len P [symmetric])
  have "snd (snd ?A) = ?P - 4" by (simp only: add_ret P [symmetric])
  moreover have "uint (word_of_int (?P - 4) :: uint16) = ?P - 4"
    using r by (intro uint16_of_int) simp_all
  ultimately have o: "uint (word_of_int (snd (snd ?A)) :: uint16) = ?P - 4"
    by (simp only:)
  have "get16 (fst (snd ?A)) 22 = get16 (txbuf ?p3 ?idx) 22 OR Nex_DATAGRAMFOLLOWS"
    using r by (intro add_first_dlength [OF P])
  then have b: "bit (get16 (fst (snd ?A)) 22) 15" by (simp only: follows_bit15)
  show ?thesis
    unfolding B Let_def split_conv
    using add_header_fields [OF P, of "txbuf ?p3 ?idx" Nex_CMD_FRMW False DCrs ECT_REG_DCSYSTIME
        "sizeof_ptr env" "bytes_of_le64 DCtime"] pay l o b
    by simp
qed

text \<open>
  C8. Every LRWDC call chains one FRMW datagram with ADP \<open>DCrs\<close>, ADO 0x0910,
  \<open>more = false\<close> and 8 bytes of payload carrying the little-endian
  \<open>*DCtime\<close>. The code passes \<^verbatim>\<open>sizeof(DCtime)\<close>, the size of the pointer, where
  \<^verbatim>\<open>sizeof(*DCtime)\<close> is meant: compiled for 4-byte pointers, the call with
  \<open>*DCtime = 0x0102030405060708\<close> and 8 bytes of process data builds a second
  datagram of length 4 that carries only the bytes 08 07 06 05, in a frame of 52
  bytes instead of 56.
\<close>

theorem C8_LRWDC_second_datagram_on_32bit:
  "(let (idx, DCtO, p) = LRWDC_build (ex_env 1 ex_rx_lrwdc 4) ex_port 0x10000 8
                            (bytes_of_list [1, 2, 3, 4, 5, 6, 7, 8]) 0x1000 0x0102030405060708;
        f = txbuf p idx
    in f 36 = Nex_CMD_FRMW \<and> get16 f 38 = 0x1000 \<and> get16 f 40 = ECT_REG_DCSYSTIME
       \<and> get16 f 42 = 4 \<and> map f [46, 47, 48, 49] = [0x08, 0x07, 0x06, 0x05]
       \<and> txbuflength p idx = 52)"
proof -
  have h: "(8 :: uint16) \<le> 1486" by simp
  have e: "sizeof_ptr (ex_env 1 ex_rx_lrwdc 4) = 4" by (simp add: ex_env_def)
  have d: "bytes_of_le64 0x0102030405060708 0 = 0x08" "bytes_of_le64 0x0102030405060708 1 = 0x07"
    "bytes_of_le64 0x0102030405060708 2 = 0x06" "bytes_of_le64 0x0102030405060708 3 = 0x05"
    by (simp_all add: bytes_of_le64_def drop_bit_eq_div)
  note t = LRWDC_build_second_datagram [OF h, of "ex_env 1 ex_rx_lrwdc 4" ex_port "0x10000"
      "bytes_of_list [1, 2, 3, 4, 5, 6, 7, 8]" "0x1000" "0x0102030405060708"]
  show ?thesis
    using t unfolding e Let_def split_beta
    apply simp
    apply (elim conjE)
    apply (intro conjI)
    subgoal premises p using p(6) [THEN spec, of 0] by (simp add: d)
    subgoal premises p using p(6) [THEN spec, of 1] by (simp add: d)
    subgoal premises p using p(6) [THEN spec, of 2] by (simp add: d)
    subgoal premises p using p(6) [THEN spec, of 3] by (simp add: d)
    done
qed

section \<open>The primitives\<close>

lemma memcpy_wkc_small:
  assumes "wkc < 0x10000"
  shows "memcpy_wkc False wkc m a = ucast (get16 m a)"
proof -
  have "wkc < 2 ^ 16" using assms by simp
  then have a: "wkc AND mask 16 = wkc" by (rule less_mask_eq)
  have m: "(0xFFFF :: cint) = mask 16" by (simp add: mask_eq_exp_minus_1)
  have "wkc AND NOT (mask 16) = (wkc AND mask 16) AND NOT (mask 16)"
    by (simp only: a)
  also have "\<dots> = 0" by (simp only: and.assoc bit.conj_cancel_right and_zero_eq)
  finally have "wkc AND NOT 0xFFFF = 0" by (simp only: m)
  then have z: "wkc AND - 65536 = 0" by simp
  have "(ucast (get16 m a) :: cint) = ucast (m a) OR push_bit 8 (ucast (m (a + 1)))"
    unfolding get16_def
    by (rule bit_word_eqI) (auto simp add: bit_simps dest: bit_imp_le_length)
  then show ?thesis by (simp add: memcpy_wkc_def z)
qed

lemma ex_little_endian: "\<not> host_big_endian (ex_env w rx n)"
  by (simp add: ex_env_def)

lemma host_u16_zero: "host_u16 be (put16 (\<lambda>_. 0) 0 0) 0 = 0"
  by (cases be) (simp_all add: host_u16_def get16_def put16_def)

lemma ex_srconfirm: "Nexx__srconfirm (ex_env w rx n) p idx t = (w, p\<lparr>rxbuf := (rxbuf p)(idx := rx)\<rparr>)"
  by (simp add: ex_env_def)

lemma ex_rx_cmd: "ex_rx_lrwdc 2 = 12" "get16 ex_rx_lrwdc 12 = 3" "get16 ex_rx_lrwdc 10 = 0"
  by (simp_all add: ex_rx_lrwdc_def bytes_of_list_def get16_def)

lemma ex_rx_other_cmd: "ex_rx_other 2 = 7"
  by (simp add: ex_rx_other_def Nex_CMD_BRD_def)

text \<open>
  C1 (as amended). On a little-endian host, for every call of \<^verbatim>\<open>LRWDC\<close> in
  which \<^verbatim>\<open>srconfirm\<close> returns a working counter \<open>wkc\<close> with
  \<open>0 < wkc < 65536\<close> (the counter is a 16-bit field) and the command byte of
  the received frame is LRW, the integer returned is the working counter of the
  LRW datagram itself: the two bytes, little endian, at offset
  \<open>Nex_HEADERSIZE + length = 12 + length\<close> of the receive buffer, in place of
  the counter the transport returned.
\<close>

theorem C1_LRWDC_returns_LRW_wkc:
  "(let (idx, DCtO, p5) = LRWDC_build env port LogAdr len data DCrs DCtime;
        (wkc, p6) = Nexx__srconfirm env p5 idx timeout
    in \<not> host_big_endian env \<and> 0 <s wkc \<and> wkc < 0x10000
       \<and> rxbuf p6 idx Nex_CMDOFFSET = Nex_CMD_LRW \<longrightarrow>
       fst (Nexx__LRWDC env port LogAdr len data DCrs DCtime timeout)
         = ucast (get16 (rxbuf p6 idx) (12 + uint len)))"
  by (simp add: Nexx__LRWDC_def Let_def split_beta memcpy_wkc_small Nex_HEADERSIZE_def)

text \<open>
  The example frame without process data: the transport returns 1, the LRW
  datagram's counter at offset 12 is 3.
\<close>

theorem C1_witness:
  "\<not> host_big_endian (ex_env 1 ex_rx_lrwdc 8)
   \<and> 0 <s (1 :: cint) \<and> (1 :: cint) < 0x10000 \<and> ex_rx_lrwdc Nex_CMDOFFSET = Nex_CMD_LRW
   \<and> fst (Nexx__LRWDC (ex_env 1 ex_rx_lrwdc 8) ex_port 0x10000 0 (\<lambda>_. 0) 0x1000 0 2000) = 3"
  using C1_LRWDC_returns_LRW_wkc
    [of "ex_env 1 ex_rx_lrwdc 8" ex_port "0x10000" 0 "\<lambda>_. 0" "0x1000" 0 2000]
  by (simp add: split_beta ex_srconfirm ex_rx_cmd ex_little_endian Nex_CMDOFFSET_def
      Nex_ELENGTHSIZE_def Nex_CMD_LRW_def word_sless_alt)

text \<open>
  C1 as first stated, with offset \<open>10 + length\<close>, fails on that call (on a
  little-endian host): offset 10 holds the IRQ bytes of the sub-header (0), and
  3 is returned.
\<close>

theorem C1_counterexample:
  "\<not> host_big_endian (ex_env 1 ex_rx_lrwdc 8)
   \<and> 0 <s (1 :: cint) \<and> ex_rx_lrwdc Nex_CMDOFFSET = Nex_CMD_LRW
   \<and> fst (Nexx__LRWDC (ex_env 1 ex_rx_lrwdc 8) ex_port 0x10000 0 (\<lambda>_. 0) 0x1000 0 2000)
       \<noteq> ucast (get16 ex_rx_lrwdc (10 + uint (0 :: uint16)))"
  by (simp add: Nexx__LRWDC_def Let_def split_beta ex_srconfirm ex_rx_cmd ex_little_endian
      Nex_CMDOFFSET_def Nex_ELENGTHSIZE_def Nex_HEADERSIZE_def Nex_CMD_LRW_def word_sless_alt
      memcpy_wkc_small)

text \<open>
  The same call on a big-endian host: the two bytes 03 00 of the LRW datagram's
  counter land in the high half of the \<^verbatim>\<open>int\<close>, whose low half keeps the
  transport's 1, and 0x03000001 is returned. The byte order of the host is
  therefore part of C1.
\<close>

lemma LRWDC_wkc_big_endian_example:
  "fst (Nexx__LRWDC ((ex_env 1 ex_rx_lrwdc 8)\<lparr>host_big_endian := True\<rparr>) ex_port 0x10000 0
         (\<lambda>_. 0) 0x1000 0 2000) = 0x03000001"
  by (simp add: Nexx__LRWDC_def Let_def split_beta ex_env_def Nex_CMDOFFSET_def
      Nex_ELENGTHSIZE_def Nex_HEADERSIZE_def Nex_CMD_LRW_def word_sless_alt memcpy_wkc_def
      ex_rx_lrwdc_def bytes_of_list_def)

text \<open>
  C9. For LRD, LRW and LRWDC: when \<^verbatim>\<open>srconfirm\<close> returns \<open>wkc > 0\<close> but the
  command byte of the received frame is not the command sent, nothing is copied
  back (the caller's data buffer and, for LRWDC, \<open>*DCtime\<close> are as before) and
  the transport's \<open>wkc\<close> is returned as it is.
\<close>

theorem C9_command_mismatch_skips_copy:
  "(let (idx, p3) = setup_in_slot Nex_CMD_LRD env port (LO_WORD LogAdr) (HI_WORD LogAdr) len data;
        (wkc, p4) = Nexx__srconfirm env p3 idx timeout
    in 0 <s wkc \<and> rxbuf p4 idx Nex_CMDOFFSET \<noteq> Nex_CMD_LRD \<longrightarrow>
       fst (Nexx__LRD env port LogAdr len data timeout) = wkc
       \<and> fst (snd (Nexx__LRD env port LogAdr len data timeout)) = data)
   \<and> (let (idx, p3) = setup_in_slot Nex_CMD_LRW env port (LO_WORD LogAdr) (HI_WORD LogAdr) len data;
        (wkc, p4) = Nexx__srconfirm env p3 idx timeout
    in 0 <s wkc \<and> rxbuf p4 idx Nex_CMDOFFSET \<noteq> Nex_CMD_LRW \<longrightarrow>
       fst (Nexx__LRW env port LogAdr len data timeout) = wkc
       \<and> fst (snd (Nexx__LRW env port LogAdr len data timeout)) = data)
   \<and> (let (idx, DCtO, p5) = LRWDC_build env port LogAdr len data DCrs DCtime;
        (wkc, p6) = Nexx__srconfirm env p5 idx timeout
    in 0 <s wkc \<and> rxbuf p6 idx Nex_CMDOFFSET \<noteq> Nex_CMD_LRW \<longrightarrow>
       fst (Nexx__LRWDC env port LogAdr len data DCrs DCtime timeout) = wkc
       \<and> fst (snd (Nexx__LRWDC env port LogAdr len data DCrs DCtime timeout)) = data
       \<and> fst (snd (snd (Nexx__LRWDC env port LogAdr len data DCrs DCtime timeout))) = DCtime)"
proof (intro conjI)
  show "(let (idx, p3) = setup_in_slot Nex_CMD_LRD env port (LO_WORD LogAdr) (HI_WORD LogAdr) len data;
        (wkc, p4) = Nexx__srconfirm env p3 idx timeout
    in 0 <s wkc \<and> rxbuf p4 idx Nex_CMDOFFSET \<noteq> Nex_CMD_LRD \<longrightarrow>
       fst (Nexx__LRD env port LogAdr len data timeout) = wkc
       \<and> fst (snd (Nexx__LRD env port LogAdr len data timeout)) = data)"
    by (simp add: Nexx__LRD_def Let_def split_beta)
  show "(let (idx, p3) = setup_in_slot Nex_CMD_LRW env port (LO_WORD LogAdr) (HI_WORD LogAdr) len data;
        (wkc, p4) = Nexx__srconfirm env p3 idx timeout
    in 0 <s wkc \<and> rxbuf p4 idx Nex_CMDOFFSET \<noteq> Nex_CMD_LRW \<longrightarrow>
       fst (Nexx__LRW env port LogAdr len data timeout) = wkc
       \<and> fst (snd (Nexx__LRW env port LogAdr len data timeout)) = data)"
    by (simp add: Nexx__LRW_def Let_def split_beta)
  show "(let (idx, DCtO, p5) = LRWDC_build env port LogAdr len data DCrs DCtime;
        (wkc, p6) = Nexx__srconfirm env p5 idx timeout
    in 0 <s wkc \<and> rxbuf p6 idx Nex_CMDOFFSET \<noteq> Nex_CMD_LRW \<longrightarrow>
       fst (Nexx__LRWDC env port LogAdr len data DCrs DCtime timeout) = wkc
       \<and> fst (snd (Nexx__LRWDC env port LogAdr len data DCrs DCtime timeout)) = data
       \<and> fst (snd (snd (Nexx__LRWDC env port LogAdr len data DCrs DCtime timeout))) = DCtime)"
    by (simp add: Nexx__LRWDC_def Let_def split_beta)
qed

theorem C9_witness:
  "0 <s (2 :: cint) \<and> ex_rx_other Nex_CMDOFFSET \<noteq> Nex_CMD_LRD
   \<and> ex_rx_other Nex_CMDOFFSET \<noteq> Nex_CMD_LRW
   \<and> fst (Nexx__LRD (ex_env 2 ex_rx_other 8) ex_port 0x10000 2 (bytes_of_list [0xAA, 0xBB]) 2000) = 2
   \<and> fst (snd (Nexx__LRD (ex_env 2 ex_rx_other 8) ex_port 0x10000 2 (bytes_of_list [0xAA, 0xBB]) 2000))
        = bytes_of_list [0xAA, 0xBB]
   \<and> fst (Nexx__LRW (ex_env 2 ex_rx_other 8) ex_port 0x10000 2 (bytes_of_list [0xAA, 0xBB]) 2000) = 2
   \<and> fst (snd (Nexx__LRW (ex_env 2 ex_rx_other 8) ex_port 0x10000 2 (bytes_of_list [0xAA, 0xBB]) 2000))
        = bytes_of_list [0xAA, 0xBB]
   \<and> fst (Nexx__LRWDC (ex_env 2 ex_rx_other 8) ex_port 0x10000 2 (bytes_of_list [0xAA, 0xBB])
             0x1000 77 2000) = 2
   \<and> fst (snd (Nexx__LRWDC (ex_env 2 ex_rx_other 8) ex_port 0x10000 2 (bytes_of_list [0xAA, 0xBB])
             0x1000 77 2000)) = bytes_of_list [0xAA, 0xBB]
   \<and> fst (snd (snd (Nexx__LRWDC (ex_env 2 ex_rx_other 8) ex_port 0x10000 2
             (bytes_of_list [0xAA, 0xBB]) 0x1000 77 2000))) = 77"
  using C9_command_mismatch_skips_copy
    [of "ex_env 2 ex_rx_other 8" ex_port "0x10000" 2 "bytes_of_list [0xAA, 0xBB]" 2000 "0x1000" 77]
  by (simp add: split_beta ex_srconfirm ex_rx_other_cmd Nex_CMDOFFSET_def Nex_ELENGTHSIZE_def
      Nex_CMD_LRW_def Nex_CMD_LRD_def word_sless_alt)

text \<open>
  C10. If the byte-level read APRD (FPRD) of the two bytes of the local word
  returns \<open>wkc \<le> 0\<close>, the word variant APRDw (FPRDw) returns 0, on a host of
  either byte order: the word was set to zero and a failed transfer does not
  write it.
\<close>

theorem C10_word_read_zero_on_failure:
  "(fst (Nexx__APRD env port ADP ADO 2 (put16 (\<lambda>_. 0) 0 0) timeout) \<le>s 0 \<longrightarrow>
      fst (Nexx__APRDw env port ADP ADO timeout) = 0)
   \<and> (fst (Nexx__FPRD env port ADP ADO 2 (put16 (\<lambda>_. 0) 0 0) timeout) \<le>s 0 \<longrightarrow>
      fst (Nexx__FPRDw env port ADP ADO timeout) = 0)"
  by (simp add: Nexx__APRDw_def Nexx__APRD_def Nexx__FPRDw_def Nexx__FPRD_def Let_def split_beta
      host_u16_zero word_sle_eq word_sless_alt)

text \<open>A transport that times out: it returns \<open>-1\<close>.\<close>

theorem C10_witness:
  "fst (Nexx__APRD (ex_env (- 1) ex_rx_lrwdc 8) ex_port 0 0x0130 2 (put16 (\<lambda>_. 0) 0 0) 2000) \<le>s 0
   \<and> fst (Nexx__APRDw (ex_env (- 1) ex_rx_lrwdc 8) ex_port 0 0x0130 2000) = 0
   \<and> fst (Nexx__FPRD (ex_env (- 1) ex_rx_lrwdc 8) ex_port 0 0x0130 2 (put16 (\<lambda>_. 0) 0 0) 2000) \<le>s 0
   \<and> fst (Nexx__FPRDw (ex_env (- 1) ex_rx_lrwdc 8) ex_port 0 0x0130 2000) = 0"
  using C10_word_read_zero_on_failure [of "ex_env (- 1) ex_rx_lrwdc 8" ex_port 0 "0x0130" 2000]
  by (simp add: Nexx__APRD_def Nexx__FPRD_def Let_def split_beta ex_srconfirm word_sle_eq)

end
